theory Spec2Isabelle
  imports Complex_Main
begin

section \<open>Data model\<close>

text \<open>
  The interfaces of \<^verbatim>\<open>src/App.tsx\<close> and \<^verbatim>\<open>src/components/AdminPanel.tsx\<close>
  (the second file also holds the \<^verbatim>\<open>DragDropAdmin\<close> component). A JavaScript
  \<^verbatim>\<open>number\<close> is modelled as a \<^typ>\<open>real\<close>: the arithmetic of the model is exact,
  where the program rounds to IEEE doubles, and there is no NaN and no infinity.
  Field names that would clash between records, or with a constant of HOL, carry the
  record's name.
\<close>

datatype SeatStatus = Available | Selected | Occupied | Premium

datatype Shape = Rounded | Sided

record Seat =
  seatId :: string
  row :: real
  seatNumber :: real
  sectorName :: string
  seatX :: real
  seatY :: real
  status :: SeatStatus
  price :: real

record Sector =
  sectorId :: string
  name :: string
  startAngle :: real
  endAngle :: real
  innerRadius :: real
  outerRadius :: real
  color :: string
  basePrice :: real
  premiumPrice :: real
  seats :: "Seat list"
  shape :: Shape

record ViewState =
  scale :: real
  offsetX :: real
  offsetY :: real
  centerX :: real
  centerY :: real

record CartItem =
  seat :: Seat
  quantity :: real

section \<open>JavaScript primitives\<close>

text \<open>
  \<^verbatim>\<open>Math.atan2(dy, dx)\<close> on the reals, with values in \<open>(-\<pi>, \<pi>]\<close>; the signed zeros
  of the doubles are not distinguished, and the origin maps to 0.
\<close>

definition atan2 :: "real \<Rightarrow> real \<Rightarrow> real" where
  "atan2 dy dx =
     (if 0 < dx then arctan (dy / dx)
      else if dx < 0 then (if 0 \<le> dy then arctan (dy / dx) + pi else arctan (dy / dx) - pi)
      else if 0 < dy then pi / 2
      else if dy < 0 then - (pi / 2)
      else 0)"

text \<open>\<^verbatim>\<open>Math.round\<close> rounds to the nearest integer, a half towards plus infinity.\<close>

definition js_round :: "real \<Rightarrow> real" where
  "js_round v = of_int \<lfloor>v + 1 / 2\<rfloor>"

text \<open>
  \<^verbatim>\<open>while (a < 0) a += 2 * Math.PI\<close>, the normalisation loop of the two collision
  checks. On the reals every run ends: each round lowers \<open>\<lceil>- a / 2\<pi>\<rceil>\<close> by one.
\<close>

function addTwoPiWhileNegative :: "real \<Rightarrow> real" where
  "addTwoPiWhileNegative a = (if a < 0 then addTwoPiWhileNegative (a + 2 * pi) else a)"
  by pat_completeness auto
termination
proof (relation "measure (\<lambda>a. nat \<lceil>- a / (2 * pi)\<rceil>)")
  show "wf (measure (\<lambda>a. nat \<lceil>- a / (2 * pi)\<rceil>))" by simp
next
  fix a :: real
  assume neg: "a < 0"
  have eq: "- (a + 2 * pi) / (2 * pi) = - a / (2 * pi) - 1"
    by (simp add: field_simps)
  have pos: "0 < - a / (2 * pi)" using neg by (intro divide_pos_pos) simp_all
  have "\<lceil>- (a + 2 * pi) / (2 * pi)\<rceil> = \<lceil>- a / (2 * pi)\<rceil> - 1"
    unfolding eq by linarith
  moreover have "0 < \<lceil>- a / (2 * pi)\<rceil>" using pos by linarith
  ultimately have "nat \<lceil>- (a + 2 * pi) / (2 * pi)\<rceil> < nat \<lceil>- a / (2 * pi)\<rceil>"
    by linarith
  then show "(a + 2 * pi, a) \<in> measure (\<lambda>a. nat \<lceil>- a / (2 * pi)\<rceil>)"
    unfolding in_measure .
qed

declare addTwoPiWhileNegative.simps [simp del]

text \<open>\<^verbatim>\<open>if (a < 0) a += 2 * Math.PI\<close>, the single step of the hit tests.\<close>

definition addTwoPiIfNegative :: "real \<Rightarrow> real" where
  "addTwoPiIfNegative a = (if a < 0 then a + 2 * pi else a)"

text \<open>
  \<^verbatim>\<open>xs.slice(0, e)\<close>: a negative end counts from the end of the array, an end
  beyond the length gives the whole array.
\<close>

definition js_slice0 :: "'a list \<Rightarrow> int \<Rightarrow> 'a list" where
  "js_slice0 xs e = (if e < 0 then take (nat (int (length xs) + e)) xs else take (nat e) xs)"

section \<open>Geometry predicates\<close>

text \<open>
  The angular test that \<^verbatim>\<open>getSectorAtPosition\<close> (both files) and
  \<^verbatim>\<open>getAdminSectorAtPosition\<close> carry inline, the same lines in the three places:
  each of the angle, the start and the end gets \<open>2\<pi>\<close> added once when it is negative,
  and a start above the end is a range that wraps past 0.
\<close>

definition angleInRange :: "real \<Rightarrow> real \<Rightarrow> real \<Rightarrow> bool" where
  "angleInRange angle start end' =
     (let normalizedAngle = addTwoPiIfNegative angle;
          startAngle' = addTwoPiIfNegative start;
          endAngle' = addTwoPiIfNegative end'
      in if startAngle' > endAngle'
         then normalizedAngle \<ge> startAngle' \<or> normalizedAngle \<le> endAngle'
         else normalizedAngle \<ge> startAngle' \<and> normalizedAngle \<le> endAngle')"

text \<open>The radial test of the two collision checks.\<close>

definition radiusOverlap :: "Sector \<Rightarrow> Sector \<Rightarrow> bool" where
  "radiusOverlap sector otherSector =
     (\<not> (outerRadius sector < innerRadius otherSector \<or>
         innerRadius sector > outerRadius otherSector))"

text \<open>
  The angular test of the two collision checks: the four bounds go through the
  \<^verbatim>\<open>while\<close> loop, then the candidate range and the other sector's range are
  compared as intervals.
\<close>

definition angleOverlap :: "real \<Rightarrow> real \<Rightarrow> Sector \<Rightarrow> bool" where
  "angleOverlap newStartAngle newEndAngle otherSector =
     (let normalizedStart = addTwoPiWhileNegative newStartAngle;
          normalizedEnd = addTwoPiWhileNegative newEndAngle;
          otherStart = addTwoPiWhileNegative (startAngle otherSector);
          otherEnd = addTwoPiWhileNegative (endAngle otherSector)
      in \<not> (normalizedEnd < otherStart \<or> normalizedStart > otherEnd))"

text \<open>
  \<^verbatim>\<open>checkCollision\<close> of \<^verbatim>\<open>DragDropAdmin\<close>; the first argument is the
  \<^verbatim>\<open>sectors\<close> the loop runs over.
\<close>

fun checkCollision :: "Sector list \<Rightarrow> Sector \<Rightarrow> real \<Rightarrow> real \<Rightarrow> bool" where
  "checkCollision [] sector newStartAngle newEndAngle = False"
| "checkCollision (otherSector # rest) sector newStartAngle newEndAngle =
     (if sectorId otherSector = sectorId sector
      then checkCollision rest sector newStartAngle newEndAngle
      else if radiusOverlap sector otherSector
      then (if angleOverlap newStartAngle newEndAngle otherSector then True
            else checkCollision rest sector newStartAngle newEndAngle)
      else checkCollision rest sector newStartAngle newEndAngle)"

text \<open>
  \<^verbatim>\<open>checkAdminSectorCollision\<close> of \<^verbatim>\<open>App\<close>: the candidate range is the dragged
  sector's span centred at the new angle; its loop is the loop of
  \<^verbatim>\<open>checkCollision\<close>, line for line.
\<close>

definition checkAdminSectorCollision :: "Sector list \<Rightarrow> Sector \<Rightarrow> real \<Rightarrow> bool" where
  "checkAdminSectorCollision sectors' draggedSector newAngle =
     (let sectorSpan = endAngle draggedSector - startAngle draggedSector;
          newStartAngle = newAngle - sectorSpan / 2;
          newEndAngle = newAngle + sectorSpan / 2
      in checkCollision sectors' draggedSector newStartAngle newEndAngle)"

section \<open>The App component\<close>

text \<open>
  The state of \<^verbatim>\<open>App\<close> that the handlers below read or write; every handler is
  a function from the state it is called in to the state after it. In the component a
  handler reads the state of the render that created it. The handlers below are run on
  the current state, as handlers of the current render, with one exception: the read
  of \<^verbatim>\<open>selectedSeats\<close> in \<^verbatim>\<open>handleSeatClick\<close> is an argument of its own, and the
  mousedown listener that calls it is modelled with the render it was registered in.
\<close>

record AppState =
  viewState :: ViewState
  selectedSeats :: "Seat list"
  sectors :: "Sector list"
  cart :: "CartItem list"
  cursorStyle :: string
  adminDraggedSector :: "string option"
  adminDragPreview :: "(real \<times> real) option"
  adminShowGrid :: bool
  adminDragHistory :: "Sector list list"
  adminHistoryIndex :: int

text \<open>
  \<^verbatim>\<open>saveToAdminHistory\<close>. \<^verbatim>\<open>JSON.parse(JSON.stringify(v))\<close> is a deep copy, the
  identity on values.
\<close>

definition saveToAdminHistory :: "AppState \<Rightarrow> Sector list \<Rightarrow> AppState" where
  "saveToAdminHistory st newSectors =
     (let newHistory = js_slice0 (adminDragHistory st) (adminHistoryIndex st + 1) @ [newSectors]
      in st\<lparr>adminDragHistory := newHistory,
            adminHistoryIndex := int (length newHistory) - 1\<rparr>)"

definition snapToGrid :: "AppState \<Rightarrow> real \<Rightarrow> real" where
  "snapToGrid st angle =
     (if \<not> adminShowGrid st then angle
      else let gridSize = pi / 12 in js_round (angle / gridSize) * gridSize)"

definition endDragSession :: "AppState \<Rightarrow> AppState" where
  \<comment> \<open>the three setters that close \<^verbatim>\<open>handleAdminDragEnd\<close> on both of its full paths\<close>
  "endDragSession st =
     st\<lparr>adminDraggedSector := None, adminDragPreview := None, cursorStyle := ''default''\<rparr>"

text \<open>
  \<^verbatim>\<open>handleAdminDragEnd\<close>. A null id, an empty id and a null preview are the falsy
  values of the first test; when no sector has the dragged id the handler returns
  without a change.
\<close>

definition handleAdminDragEnd :: "AppState \<Rightarrow> AppState" where
  "handleAdminDragEnd st =
     (case (adminDraggedSector st, adminDragPreview st) of
        (Some draggedId, Some (previewX, previewY)) \<Rightarrow>
          if draggedId = [] then endDragSession st
          else
            (case find (\<lambda>s. sectorId s = draggedId) (sectors st) of
               None \<Rightarrow> st
             | Some draggedSector \<Rightarrow>
                 let dx = previewX - centerX (viewState st);
                     dy = previewY - centerY (viewState st);
                     angle = atan2 dy dx;
                     snappedAngle = snapToGrid st angle;
                     hasCollision = checkAdminSectorCollision (sectors st) draggedSector snappedAngle
                 in if \<not> hasCollision
                    then
                      let sectorSpan = endAngle draggedSector - startAngle draggedSector;
                          newStartAngle = snappedAngle - sectorSpan / 2;
                          newEndAngle = snappedAngle + sectorSpan / 2;
                          updatedSectors =
                            map (\<lambda>sector.
                                   if sectorId sector = draggedId
                                   then sector\<lparr>startAngle := newStartAngle, endAngle := newEndAngle\<rparr>
                                   else sector) (sectors st)
                      in endDragSession ((saveToAdminHistory st (sectors st))\<lparr>sectors := updatedSectors\<rparr>)
                    else endDragSession st)
      | _ \<Rightarrow> endDragSession st)"

text \<open>
  \<^verbatim>\<open>handleWheel\<close>; \<open>mouseX\<close> and \<open>mouseY\<close> are the pointer's position relative to
  the canvas, \<open>deltaY\<close> the wheel's direction.
\<close>

definition handleWheel :: "AppState \<Rightarrow> real \<Rightarrow> real \<Rightarrow> real \<Rightarrow> AppState" where
  "handleWheel st mouseX mouseY deltaY =
     (let scaleFactor = (if deltaY > 0 then 95 / 100 else 105 / 100);
          newScale = max (1 / 2) (min 20 (scale (viewState st) * scaleFactor));
          prev = viewState st
      in st\<lparr>viewState := prev\<lparr>scale := newScale,
                               offsetX := mouseX - (mouseX - offsetX prev) * scaleFactor,
                               offsetY := mouseY - (mouseY - offsetY prev) * scaleFactor\<rparr>\<rparr>)"

text \<open>
  \<^verbatim>\<open>getSeatAtPosition\<close>: the first seat, sector by sector, within the hit radius of
  the position.
\<close>

definition getSeatAtPosition :: "AppState \<Rightarrow> real \<Rightarrow> real \<Rightarrow> Seat option" where
  "getSeatAtPosition st x y =
     (let transformedX = (x - offsetX (viewState st)) / scale (viewState st);
          transformedY = (y - offsetY (viewState st)) / scale (viewState st)
      in find (\<lambda>seat'.
                 sqrt ((transformedX - seatX seat')\<^sup>2 + (transformedY - seatY seat')\<^sup>2)
                   < 4 * max 1 (scale (viewState st) / 5))
              (concat (map seats (sectors st))))"

text \<open>\<^verbatim>\<open>getSectorAtPosition\<close> of \<^verbatim>\<open>App\<close>: the first sector that holds the position.\<close>

definition getSectorAtPosition :: "AppState \<Rightarrow> real \<Rightarrow> real \<Rightarrow> Sector option" where
  "getSectorAtPosition st x y =
     (if scale (viewState st) > 3 then None
      else
        let worldX = (x - offsetX (viewState st)) / scale (viewState st);
            worldY = (y - offsetY (viewState st)) / scale (viewState st);
            dx = worldX - centerX (viewState st);
            dy = worldY - centerY (viewState st);
            distance = sqrt (dx * dx + dy * dy);
            angle = atan2 dy dx
        in find (\<lambda>sector.
                   distance \<ge> innerRadius sector \<and> distance \<le> outerRadius sector \<and>
                   angleInRange angle (startAngle sector) (endAngle sector))
                (sectors st))"

text \<open>
  The three handlers of the selection and the cart. \<^verbatim>\<open>handleSeatClick\<close> computes
  \<^verbatim>\<open>isSelected\<close> from the \<^verbatim>\<open>selectedSeats\<close> of the render that created the handler,
  the first argument here; its two setters are functional updates and act on the
  current state. \<^verbatim>\<open>removeFromCart\<close> and \<^verbatim>\<open>clearCart\<close> read no state.
\<close>

definition handleSeatClick :: "Seat list \<Rightarrow> AppState \<Rightarrow> Seat \<Rightarrow> AppState" where
  "handleSeatClick renderSelectedSeats st seat' =
     (let isSelected = list_ex (\<lambda>s. seatId s = seatId seat') renderSelectedSeats
      in if isSelected
         then st\<lparr>selectedSeats := filter (\<lambda>s. seatId s \<noteq> seatId seat') (selectedSeats st),
                 cart := filter (\<lambda>item. seatId (seat item) \<noteq> seatId seat') (cart st)\<rparr>
         else st\<lparr>selectedSeats := selectedSeats st @ [seat'],
                 cart := cart st @ [\<lparr>seat = seat', quantity = 1\<rparr>]\<rparr>)"

definition removeFromCart :: "AppState \<Rightarrow> string \<Rightarrow> AppState" where
  "removeFromCart st seatId' =
     st\<lparr>cart := filter (\<lambda>item. seatId (seat item) \<noteq> seatId') (cart st),
        selectedSeats := filter (\<lambda>s. seatId s \<noteq> seatId') (selectedSeats st)\<rparr>"

definition clearCart :: "AppState \<Rightarrow> AppState" where
  "clearCart st = st\<lparr>cart := [], selectedSeats := []\<rparr>"

text \<open>
  The canvas listeners. The effect of \<^verbatim>\<open>App.tsx\<close> 273-392 registers them, and runs
  again only when \<^verbatim>\<open>viewState\<close>, \<^verbatim>\<open>isDragging\<close>, \<^verbatim>\<open>dragStart\<close>, \<^verbatim>\<open>sectors\<close>,
  \<^verbatim>\<open>adminDragMode\<close>, \<^verbatim>\<open>adminDraggedSector\<close>, \<^verbatim>\<open>adminDragOffset\<close> or
  \<^verbatim>\<open>adminShowGrid\<close> changes: \<^verbatim>\<open>selectedSeats\<close> is not in the list. The
  \<^verbatim>\<open>handleSeatClick\<close> that the mousedown listener calls is therefore the one of the
  render in which the effect last ran, with the \<^verbatim>\<open>selectedSeats\<close> of that render.
\<close>

record Canvas =
  app :: AppState
  listenerSelectedSeats :: "Seat list"

definition registerListeners :: "AppState \<Rightarrow> Canvas" where
  "registerListeners st = \<lparr>app = st, listenerSelectedSeats = selectedSeats st\<rparr>"

text \<open>
  \<^verbatim>\<open>handleMouseDown\<close> outside admin drag mode, at the canvas coordinates of the event.
  The seat is looked up with \<^verbatim>\<open>viewState\<close> and \<^verbatim>\<open>sectors\<close>, which are dependencies
  of the effect and so those of the current state. On an available or premium seat the
  listener calls its \<^verbatim>\<open>handleSeatClick\<close>; no dependency changes, and the listener
  stays. Otherwise a pan starts: \<^verbatim>\<open>isDragging\<close> and \<^verbatim>\<open>dragStart\<close> change, and the
  effect registers the listeners of the new render. A wheel event changes
  \<^verbatim>\<open>viewState\<close> and has the same effect.
\<close>

definition handleMouseDown :: "Canvas \<Rightarrow> real \<Rightarrow> real \<Rightarrow> Canvas" where
  "handleMouseDown c mouseX mouseY =
     (case getSeatAtPosition (app c) mouseX mouseY of
        Some seat' \<Rightarrow>
          if status seat' = Available \<or> status seat' = Premium
          then c\<lparr>app := handleSeatClick (listenerSelectedSeats c) (app c) seat'\<rparr>
          else registerListeners (app c)
      | None \<Rightarrow> registerListeners (app c))"

definition wheelOnCanvas :: "Canvas \<Rightarrow> real \<Rightarrow> real \<Rightarrow> real \<Rightarrow> Canvas" where
  "wheelOnCanvas c mouseX mouseY deltaY = registerListeners (handleWheel (app c) mouseX mouseY deltaY)"

text \<open>
  \<^verbatim>\<open>handleSectorsUpdate\<close>, the \<^verbatim>\<open>onSectorsUpdate\<close> that \<^verbatim>\<open>App\<close> hands to the admin
  panel: every sector of the new collection gets its seats generated afresh. The seat
  statuses are drawn from \<^verbatim>\<open>Math.random\<close>, so the seats one call generates for a
  sector are the argument \<open>generatedSeats\<close> of that call.
\<close>

definition handleSectorsUpdate ::
  "(Sector \<Rightarrow> Seat list) \<Rightarrow> AppState \<Rightarrow> Sector list \<Rightarrow> AppState" where
  "handleSectorsUpdate generatedSeats st updatedSectors =
     (let sectorsWithSeats =
            map (\<lambda>sector. sector\<lparr>seats := generatedSeats sector\<rparr>) updatedSectors
      in st\<lparr>sectors := sectorsWithSeats\<rparr>)"

section \<open>The AdminPanel component\<close>







text \<open>The quick action \<^verbatim>\<open>Reset All to Rounded\<close>, shown under every tab of the panel.\<close>

definition resetAllToRounded :: "(Sector \<Rightarrow> Seat list) \<Rightarrow> AppState \<Rightarrow> AppState" where
  "resetAllToRounded generatedSeats st =
     (let resetSectors = map (\<lambda>sector. sector\<lparr>shape := Rounded\<rparr>) (sectors st)
      in handleSectorsUpdate generatedSeats st resetSectors)"

section \<open>The DragDropAdmin component\<close>

datatype DragMode = Free | Linear | Radial

record DragState =
  isDragging :: bool
  draggedSector :: "Sector option"
  dragOffset :: "real \<times> real"
  dragMode :: DragMode
  previewPosition :: "(real \<times> real) option"  \<comment> \<open>\<^verbatim>\<open>startAngle\<close> and \<^verbatim>\<open>endAngle\<close>\<close>
  isValidPosition :: bool
  dragStartPosition :: "real \<times> real"
  currentPosition :: "real \<times> real"

record HistoryState =
  historySectors :: "Sector list"
  timestamp :: real

record SnapSettings =
  enableLinearSnap :: bool
  enableRadialSnap :: bool
  linearGridSize :: real
  radialGridSize :: real
  snapThreshold :: real

text \<open>
  The component's own state, with the state of \<^verbatim>\<open>App\<close> from which its props
  \<^verbatim>\<open>sectors\<close> and \<^verbatim>\<open>viewState\<close> are read and on which \<^verbatim>\<open>onSectorsUpdate\<close> acts.
\<close>

record EditorState =
  parent :: AppState
  dragState :: DragState
  history :: "HistoryState list"
  historyIndex :: int
  snapSettings :: SnapSettings

datatype error = TypeError

definition idleDragState :: DragState where
  "idleDragState =
     \<lparr>isDragging = False, draggedSector = None, dragOffset = (0, 0), dragMode = Free,
      previewPosition = None, isValidPosition = True,
      dragStartPosition = (0, 0), currentPosition = (0, 0)\<rparr>"

text \<open>The effect that seeds an empty history with the sectors the component first sees.\<close>

definition initializeHistory :: "EditorState \<Rightarrow> real \<Rightarrow> EditorState" where
  "initializeHistory es now =
     (if length (history es) = 0 \<and> length (sectors (parent es)) > 0
      then es\<lparr>history := [\<lparr>historySectors = sectors (parent es), timestamp = now\<rparr>],
              historyIndex := 0\<rparr>
      else es)"

definition saveToHistory :: "EditorState \<Rightarrow> Sector list \<Rightarrow> real \<Rightarrow> EditorState" where
  "saveToHistory es newSectors now =
     (let newState = \<lparr>historySectors = newSectors, timestamp = now\<rparr>;
          newHistory = js_slice0 (history es) (historyIndex es + 1) @ [newState]
      in if length newHistory > 50
         then es\<lparr>history := tl newHistory\<rparr>
         else es\<lparr>historyIndex := historyIndex es + 1, history := newHistory\<rparr>)"

text \<open>
  \<^verbatim>\<open>handleUndo\<close> and \<^verbatim>\<open>handleRedo\<close>. Reading \<^verbatim>\<open>.sectors\<close> of an entry that
  the array does not hold throws a TypeError.
\<close>

definition handleUndo :: "(Sector \<Rightarrow> Seat list) \<Rightarrow> EditorState \<Rightarrow> error + EditorState" where
  "handleUndo generatedSeats es =
     (if historyIndex es > 0
      then
        if nat (historyIndex es - 1) < length (history es)
        then
          let previousState = history es ! nat (historyIndex es - 1)
          in Inr (es\<lparr>parent := handleSectorsUpdate generatedSeats (parent es)
                                   (historySectors previousState),
                      historyIndex := historyIndex es - 1\<rparr>)
        else Inl TypeError
      else Inr es)"

definition handleRedo :: "(Sector \<Rightarrow> Seat list) \<Rightarrow> EditorState \<Rightarrow> error + EditorState" where
  "handleRedo generatedSeats es =
     (if historyIndex es < int (length (history es)) - 1
      then
        if 0 \<le> historyIndex es + 1
        then
          let nextState = history es ! nat (historyIndex es + 1)
          in Inr (es\<lparr>parent := handleSectorsUpdate generatedSeats (parent es)
                                   (historySectors nextState),
                      historyIndex := historyIndex es + 1\<rparr>)
        else Inl TypeError
      else Inr es)"

definition snapToLinearGrid :: "EditorState \<Rightarrow> real \<Rightarrow> real" where
  "snapToLinearGrid es v =
     (if \<not> enableLinearSnap (snapSettings es) then v
      else js_round (v / linearGridSize (snapSettings es)) * linearGridSize (snapSettings es))"

definition snapToRadialGrid :: "EditorState \<Rightarrow> real \<Rightarrow> real" where
  "snapToRadialGrid es angle =
     (if \<not> enableRadialSnap (snapSettings es) then angle
      else js_round (angle / radialGridSize (snapSettings es)) * radialGridSize (snapSettings es))"

definition determineDragMode :: "EditorState \<Rightarrow> real \<times> real \<Rightarrow> real \<times> real \<Rightarrow> DragMode" where
  "determineDragMode es startPos currentPos =
     (let dx = fst currentPos - fst startPos;
          dy = snd currentPos - snd startPos;
          distance = sqrt (dx * dx + dy * dy)
      in if distance < 10 then Free
         else
           let angle = \<bar>atan2 dy dx\<bar>;
               isHorizontal = (angle < pi / 8 \<or> angle > 7 * pi / 8);
               isVertical = (angle > 3 * pi / 8 \<and> angle < 5 * pi / 8)
           in if isHorizontal \<or> isVertical then Linear
              else
                let centerDx = fst startPos - centerX (viewState (parent es));
                    centerDy = snd startPos - centerY (viewState (parent es));
                    startRadius = sqrt (centerDx * centerDx + centerDy * centerDy);
                    currentCenterDx = fst currentPos - centerX (viewState (parent es));
                    currentCenterDy = snd currentPos - centerY (viewState (parent es));
                    currentRadius =
                      sqrt (currentCenterDx * currentCenterDx + currentCenterDy * currentCenterDy);
                    radiusDiff = \<bar>currentRadius - startRadius\<bar>
                in if radiusDiff < 30 then Radial else Free)"

definition worldToAngle :: "EditorState \<Rightarrow> real \<Rightarrow> real \<Rightarrow> real" where
  "worldToAngle es worldX worldY =
     (let dx = worldX - centerX (viewState (parent es));
          dy = worldY - centerY (viewState (parent es))
      in atan2 dy dx)"

definition calculateNewPosition ::
  "EditorState \<Rightarrow> Sector \<Rightarrow> real \<times> real \<Rightarrow> DragMode \<Rightarrow> real \<times> real" where
  "calculateNewPosition es sector currentPos dragMode' =
     (let sectorSpan = endAngle sector - startAngle sector
      in if dragMode' = Radial
         then
           let angle = worldToAngle es (fst currentPos) (snd currentPos);
               snappedAngle = snapToRadialGrid es angle
           in (snappedAngle - sectorSpan / 2, snappedAngle + sectorSpan / 2)
         else if dragMode' = Linear
         then
           let snappedX = snapToLinearGrid es (fst currentPos);
               snappedY = snapToLinearGrid es (snd currentPos);
               angle = worldToAngle es snappedX snappedY
           in (angle - sectorSpan / 2, angle + sectorSpan / 2)
         else
           let angle = worldToAngle es (fst currentPos) (snd currentPos)
           in (angle - sectorSpan / 2, angle + sectorSpan / 2))"

text \<open>
  \<^verbatim>\<open>handleMouseMove\<close>, from the world position \<^verbatim>\<open>mouseToWorld\<close> gives for the
  event, and \<^verbatim>\<open>handleMouseUp\<close>; \<open>now\<close> is \<^verbatim>\<open>Date.now()\<close>.
\<close>

definition handleMouseMove :: "EditorState \<Rightarrow> real \<times> real \<Rightarrow> EditorState" where
  "handleMouseMove es world =
     (case (isDragging (dragState es), draggedSector (dragState es)) of
        (True, Some dragged) \<Rightarrow>
          let adjustedPos = (fst world - fst (dragOffset (dragState es)),
                             snd world - snd (dragOffset (dragState es)));
              dragMode' = determineDragMode es (dragStartPosition (dragState es)) world;
              newPosition = calculateNewPosition es dragged adjustedPos dragMode';
              hasCollision =
                checkCollision (sectors (parent es)) dragged (fst newPosition) (snd newPosition)
          in es\<lparr>dragState := (dragState es)\<lparr>dragMode := dragMode',
                                             currentPosition := world,
                                             previewPosition := Some newPosition,
                                             isValidPosition := \<not> hasCollision\<rparr>\<rparr>
      | _ \<Rightarrow> es)"

definition handleMouseUp :: "(Sector \<Rightarrow> Seat list) \<Rightarrow> EditorState \<Rightarrow> real \<Rightarrow> EditorState" where
  "handleMouseUp generatedSeats es now =
     (let es' =
        (case (isDragging (dragState es), draggedSector (dragState es),
               previewPosition (dragState es), isValidPosition (dragState es)) of
           (True, Some dragged, Some preview, True) \<Rightarrow>
             let updatedSectors =
                   map (\<lambda>sector.
                          if sectorId sector = sectorId dragged
                          then sector\<lparr>startAngle := fst preview, endAngle := snd preview\<rparr>
                          else sector) (sectors (parent es));
                 applied = es\<lparr>parent := handleSectorsUpdate generatedSeats (parent es) updatedSectors\<rparr>
             in saveToHistory applied updatedSectors now
         | _ \<Rightarrow> es)
      in es'\<lparr>dragState := idleDragState\<rparr>)"

section \<open>The membership test in the words of the specification\<close>

text \<open>
  The specification's \<^verbatim>\<open>angleInRange\<close>: the angle, the start and the end are
  normalised by repeated addition of \<open>2\<pi>\<close>, then compared as in the code. It is the
  test of the code with the loop in the place of the single step.
\<close>

definition angleInRange_repeated :: "real \<Rightarrow> real \<Rightarrow> real \<Rightarrow> bool" where
  "angleInRange_repeated angle start end' =
     (let normalizedAngle = addTwoPiWhileNegative angle;
          startAngle' = addTwoPiWhileNegative start;
          endAngle' = addTwoPiWhileNegative end'
      in if startAngle' > endAngle'
         then normalizedAngle \<ge> startAngle' \<or> normalizedAngle \<le> endAngle'
         else normalizedAngle \<ge> startAngle' \<and> normalizedAngle \<le> endAngle')"

section \<open>The collision invariant in the words of the specification\<close>

text \<open>
  The specification's \<^verbatim>\<open>sectorsCollide\<close>: the radial overlap test, and the angular
  overlap test, which applies the membership test of the specification, with its
  handling of a range that wraps past 0, to the boundaries of the two ranges. Two
  sectors collide when both tests hold. The invariant of the sector collection is that
  no two sectors with different ids collide.
\<close>

definition angularOverlap_spec :: "real \<Rightarrow> real \<Rightarrow> real \<Rightarrow> real \<Rightarrow> bool" where
  "angularOverlap_spec start1 end1 start2 end2 =
     (angleInRange_repeated start1 start2 end2 \<or> angleInRange_repeated end1 start2 end2 \<or>
      angleInRange_repeated start2 start1 end1 \<or> angleInRange_repeated end2 start1 end1)"

definition sectorsCollide_spec :: "Sector \<Rightarrow> Sector \<Rightarrow> bool" where
  "sectorsCollide_spec a b =
     (\<not> (outerRadius a < innerRadius b \<or> innerRadius a > outerRadius b) \<and>
      angularOverlap_spec (startAngle a) (endAngle a) (startAngle b) (endAngle b))"


text \<open>The function that both drag commits map over the sectors.\<close>

definition moveSpan :: "string \<Rightarrow> real \<Rightarrow> real \<Rightarrow> Sector \<Rightarrow> Sector" where
  "moveSpan d ns ne sector =
     (if sectorId sector = d then sector\<lparr>startAngle := ns, endAngle := ne\<rparr> else sector)"

section \<open>Sequences of history pushes\<close>

text \<open>
  A run of \<^verbatim>\<open>saveToHistory\<close> calls, each with its collection and its time stamp, and
  the entry that one call builds.
\<close>

definition pushAll :: "EditorState \<Rightarrow> (Sector list \<times> real) list \<Rightarrow> EditorState" where
  "pushAll es pushes = foldl (\<lambda>e (newSectors, now). saveToHistory e newSectors now) es pushes"

definition entryOf :: "Sector list \<times> real \<Rightarrow> HistoryState" where
  "entryOf push = \<lparr>historySectors = fst push, timestamp = snd push\<rparr>"

section \<open>Undo followed by redo\<close>

text \<open>The two handlers one after the other; an error of the first ends the run.\<close>

definition undoThenRedo ::
  "(Sector \<Rightarrow> Seat list) \<Rightarrow> (Sector \<Rightarrow> Seat list) \<Rightarrow> EditorState \<Rightarrow> error + EditorState" where
  "undoThenRedo g1 g2 es =
     (case handleUndo g1 es of Inl e \<Rightarrow> Inl e | Inr es' \<Rightarrow> handleRedo g2 es')"

section \<open>The view transform and the cart events\<close>

text \<open>
  The transform from the canvas to the world that every hit test starts with
  (\<^verbatim>\<open>(x - viewState.offsetX) / viewState.scale\<close>, and the same for \<open>y\<close>).
\<close>

definition screenToWorld :: "ViewState \<Rightarrow> real \<Rightarrow> real \<Rightarrow> real \<times> real" where
  "screenToWorld v x y = ((x - offsetX v) / scale v, (y - offsetY v) / scale v)"


text \<open>
  The three operations on the selection and the cart as events, the seat click with the
  handler of the current render, and the cart items of one seat id.
\<close>

datatype CartEvent = SeatClick Seat | RemoveFromCart string | ClearCart

fun applyCartEvent :: "AppState \<Rightarrow> CartEvent \<Rightarrow> AppState" where
  "applyCartEvent st (SeatClick seat') = handleSeatClick (selectedSeats st) st seat'"
| "applyCartEvent st (RemoveFromCart seatId') = removeFromCart st seatId'"
| "applyCartEvent st ClearCart = clearCart st"

definition cartItemsOf :: "AppState \<Rightarrow> string \<Rightarrow> CartItem list" where
  "cartItemsOf st seatId' = filter (\<lambda>item. seatId (seat item) = seatId') (cart st)"


text \<open>The cart holds one item of quantity 1 for each selected seat, in the same order.\<close>

definition cartMirrorsSelection :: "AppState \<Rightarrow> bool" where
  "cartMirrorsSelection st =
     (cart st = map (\<lambda>s. \<lparr>seat = s, quantity = 1\<rparr>) (selectedSeats st)
      \<and> distinct (map seatId (selectedSeats st)))"

section \<open>Fixtures\<close>

text \<open>A sector with a given id, angular span and radial band, the other fields fixed.\<close>

definition wedge :: "string \<Rightarrow> real \<Rightarrow> real \<Rightarrow> real \<Rightarrow> real \<Rightarrow> Sector" where
  "wedge i a b r1 r2 =
     \<lparr>sectorId = i, name = i, startAngle = a, endAngle = b, innerRadius = r1,
      outerRadius = r2, color = ''#ff6b6b'', basePrice = 100, premiumPrice = 200,
      seats = [], shape = Rounded\<rparr>"

text \<open>
  The state of \<^verbatim>\<open>App\<close> with given sectors, the view at scale 1 around the origin,
  nothing selected, no drag and an empty history; and the same with a drag under way.
\<close>

definition appWith :: "Sector list \<Rightarrow> AppState" where
  "appWith ss =
     \<lparr>viewState = \<lparr>scale = 1, offsetX = 0, offsetY = 0, centerX = 0, centerY = 0\<rparr>,
      selectedSeats = [], sectors = ss, cart = [], cursorStyle = ''default'',
      adminDraggedSector = None, adminDragPreview = None, adminShowGrid = False,
      adminDragHistory = [], adminHistoryIndex = - 1\<rparr>"

definition draggingApp :: "Sector list \<Rightarrow> string \<Rightarrow> real \<times> real \<Rightarrow> AppState" where
  "draggingApp ss d p = (appWith ss)\<lparr>adminDraggedSector := Some d, adminDragPreview := Some p\<rparr>"

text \<open>
  The state of \<^verbatim>\<open>DragDropAdmin\<close> over given sectors, with an empty history and a
  radial grid of 10 degrees; and the drag state of a sector picked up at a position.
\<close>

definition editorWith :: "Sector list \<Rightarrow> DragState \<Rightarrow> EditorState" where
  "editorWith ss ds =
     \<lparr>parent = appWith ss, dragState = ds, history = [], historyIndex = - 1,
      snapSettings = \<lparr>enableLinearSnap = True, enableRadialSnap = True, linearGridSize = 20,
                       radialGridSize = pi / 18, snapThreshold = 15\<rparr>\<rparr>"

definition dragging :: "Sector \<Rightarrow> real \<times> real \<Rightarrow> (real \<times> real) option \<Rightarrow> bool \<Rightarrow> DragState" where
  "dragging sector pos preview valid =
     \<lparr>isDragging = True, draggedSector = Some sector, dragOffset = (0, 0), dragMode = Free,
      previewPosition = preview, isValidPosition = valid,
      dragStartPosition = pos, currentPosition = pos\<rparr>"

text \<open>
  The editor after one committed drag: the history is seeded with a sided sector on
  \<open>[0, \<pi>/6]\<close>, then the sector is dropped on \<open>[\<pi>/2, 2\<pi>/3]\<close>, with no seats
  generated. And the same editor after the quick action has reset the shapes.
\<close>

definition sidedStand :: Sector where
  "sidedStand = (wedge ''a'' 0 (pi / 6) 140 240)\<lparr>shape := Sided\<rparr>"

definition afterOneDrag :: EditorState where
  "afterOneDrag =
     handleMouseUp (\<lambda>s. [])
       (initializeHistory
          (editorWith [sidedStand] (dragging sidedStand (1, 0) (Some (pi / 2, 2 * pi / 3)) True)) 0) 1"

definition afterDragAndReset :: EditorState where
  "afterDragAndReset = afterOneDrag\<lparr>parent := resetAllToRounded (\<lambda>s. []) (parent afterOneDrag)\<rparr>"

text \<open>The state of \<^verbatim>\<open>App\<close> at a given zoom, and a seat at a given position.\<close>

definition zoomedTo :: "real \<Rightarrow> AppState" where
  "zoomedTo s = (appWith [])\<lparr>viewState := \<lparr>scale = s, offsetX = 0, offsetY = 0, centerX = 0, centerY = 0\<rparr>\<rparr>"

definition seatAt :: "string \<Rightarrow> real \<Rightarrow> real \<Rightarrow> Seat" where
  "seatAt i sx sy =
     \<lparr>seatId = i, row = 1, seatNumber = 1, sectorName = ''a'', seatX = sx, seatY = sy,
      status = Available, price = 100\<rparr>"

text \<open>A sector with one available seat at \<open>(200, 0)\<close>, and the canvas over it.\<close>

definition standWithSeat :: Sector where
  "standWithSeat = (wedge ''a'' (- (pi / 6)) (pi / 6) 180 280)\<lparr>seats := [seatAt ''a-0-0'' 200 0]\<rparr>"

definition freshCanvas :: Canvas where
  "freshCanvas = registerListeners (appWith [standWithSeat])"

section \<open>Basic facts\<close>

lemma wedge_simps [simp]:
  "sectorId (wedge i a b r1 r2) = i"
  "startAngle (wedge i a b r1 r2) = a"
  "endAngle (wedge i a b r1 r2) = b"
  "innerRadius (wedge i a b r1 r2) = r1"
  "outerRadius (wedge i a b r1 r2) = r2"
  by (simp_all add: wedge_def)

lemma addTwoPiWhileNegative_nonneg [simp]: "0 \<le> a \<Longrightarrow> addTwoPiWhileNegative a = a"
  by (simp add: addTwoPiWhileNegative.simps)

lemma addTwoPiWhileNegative_neg:
  "a < 0 \<Longrightarrow> addTwoPiWhileNegative a = addTwoPiWhileNegative (a + 2 * pi)"
  by (subst addTwoPiWhileNegative.simps) simp


section \<open>Collision of touching ranges\<close>

text \<open>
  Claim C3, as the code has it. For the sectors on \<open>[0, \<pi>/4]\<close> and \<open>[\<pi>/4, \<pi>/2]\<close>
  that share the band \<open>[140, 240]\<close> the sector collision test returns true, whichever of
  the two is the candidate: \<^verbatim>\<open>checkCollision\<close> on each span, and
  \<^verbatim>\<open>checkAdminSectorCollision\<close> on each sector dropped at its own mid angle.
\<close>

theorem touching_instance_collides:
  "checkCollision [wedge ''a'' 0 (pi / 4) 140 240, wedge ''b'' (pi / 4) (pi / 2) 140 240]
        (wedge ''a'' 0 (pi / 4) 140 240) 0 (pi / 4)
   \<and> checkCollision [wedge ''a'' 0 (pi / 4) 140 240, wedge ''b'' (pi / 4) (pi / 2) 140 240]
        (wedge ''b'' (pi / 4) (pi / 2) 140 240) (pi / 4) (pi / 2)
   \<and> checkAdminSectorCollision
        [wedge ''a'' 0 (pi / 4) 140 240, wedge ''b'' (pi / 4) (pi / 2) 140 240]
        (wedge ''a'' 0 (pi / 4) 140 240) (pi / 8)
   \<and> checkAdminSectorCollision
        [wedge ''a'' 0 (pi / 4) 140 240, wedge ''b'' (pi / 4) (pi / 2) 140 240]
        (wedge ''b'' (pi / 4) (pi / 2) 140 240) (3 * pi / 8)"
  by (simp add: checkAdminSectorCollision_def radiusOverlap_def angleOverlap_def Let_def)

text \<open>
  Claim C3 as stated says the test returns false on these two sectors. Both collision
  checks return true there: \<^verbatim>\<open>checkCollision\<close> on the span itself, and
  \<^verbatim>\<open>checkAdminSectorCollision\<close> on the first sector dropped at its own mid angle.
\<close>

theorem touching_boundary_counterexample:
  "checkCollision [wedge ''a'' 0 (pi / 4) 140 240, wedge ''b'' (pi / 4) (pi / 2) 140 240]
        (wedge ''a'' 0 (pi / 4) 140 240) 0 (pi / 4) \<noteq> False
   \<and> checkAdminSectorCollision
        [wedge ''a'' 0 (pi / 4) 140 240, wedge ''b'' (pi / 4) (pi / 2) 140 240]
        (wedge ''a'' 0 (pi / 4) 140 240) (pi / 8) \<noteq> False"
  by (simp add: checkAdminSectorCollision_def radiusOverlap_def angleOverlap_def Let_def)

text \<open>
  The result belongs to this instance. Where the candidate starts below 0, the loop
  moves its start to the far side of the circle and the comparison of intervals no
  longer sees the shared boundary: the range \<open>[-\<pi>/6, \<pi>/6]\<close> against the range
  \<open>[\<pi>/6, \<pi>/3]\<close> of an overlapping band does not collide.
\<close>

lemma touching_after_wrap_no_collision:
  "\<not> checkCollision
       [wedge ''north'' (- (pi / 6)) (pi / 6) 180 280, wedge ''east'' (pi / 6) (pi / 3) 160 260]
       (wedge ''north'' (- (pi / 6)) (pi / 6) 180 280) (- (pi / 6)) (pi / 6)"
proof -
  have "addTwoPiWhileNegative (- (pi / 6)) = addTwoPiWhileNegative (- (pi / 6) + 2 * pi)"
    by (rule addTwoPiWhileNegative_neg) simp
  also have "- (pi / 6) + 2 * pi = 11 * pi / 6" by simp
  finally have n: "addTwoPiWhileNegative (- (pi / 6)) = 11 * pi / 6" by simp
  show ?thesis
    by (simp add: radiusOverlap_def angleOverlap_def Let_def n)
qed

section \<open>The angular membership test\<close>

lemma addTwoPiWhileNegative_one_round:
  assumes "- (2 * pi) \<le> a"
  shows "addTwoPiWhileNegative a = addTwoPiIfNegative a"
proof (cases "a < 0")
  case True
  then have "addTwoPiWhileNegative a = addTwoPiWhileNegative (a + 2 * pi)"
    by (rule addTwoPiWhileNegative_neg)
  also have "\<dots> = a + 2 * pi" using assms by simp
  finally show ?thesis using True by (simp add: addTwoPiIfNegative_def)
next
  case False
  then show ?thesis by (simp add: addTwoPiIfNegative_def)
qed

text \<open>
  Claim C4, as the code has it. The hit tests add \<open>2\<pi>\<close> once to a negative angle,
  start or end: a value in \<open>[-2\<pi>, 2\<pi>)\<close> lands in \<open>[0, 2\<pi>)\<close>, and on inputs from
  \<open>-2\<pi>\<close> upwards the test agrees with the one that adds \<open>2\<pi>\<close> repeatedly. For the
  wrapping range from 350 to 10 degrees, stored as \<open>-\<pi>/18\<close> to \<open>\<pi>/18\<close> or as
  \<open>35\<pi>/18\<close> to \<open>\<pi>/18\<close>, the test holds at 0 and at 355 degrees (the \<open>-\<pi>/36\<close> that
  \<^verbatim>\<open>Math.atan2\<close> gives, or \<open>71\<pi>/36\<close>) and fails at 180 degrees.
\<close>

theorem angleInRange_single_addition:
  "(- (2 * pi) \<le> a \<and> a < 2 * pi \<longrightarrow>
      0 \<le> addTwoPiIfNegative a \<and> addTwoPiIfNegative a < 2 * pi)
   \<and> (- (2 * pi) \<le> angle \<and> - (2 * pi) \<le> start \<and> - (2 * pi) \<le> end' \<longrightarrow>
        angleInRange angle start end' = angleInRange_repeated angle start end')
   \<and> angleInRange 0 (- (pi / 18)) (pi / 18)
   \<and> angleInRange (- (pi / 36)) (- (pi / 18)) (pi / 18)
   \<and> angleInRange (71 * pi / 36) (35 * pi / 18) (pi / 18)
   \<and> \<not> angleInRange pi (- (pi / 18)) (pi / 18)"
proof (intro conjI impI)
  assume "- (2 * pi) \<le> a \<and> a < 2 * pi"
  then show "0 \<le> addTwoPiIfNegative a" "addTwoPiIfNegative a < 2 * pi"
    by (auto simp: addTwoPiIfNegative_def)
next
  assume "- (2 * pi) \<le> angle \<and> - (2 * pi) \<le> start \<and> - (2 * pi) \<le> end'"
  then show "angleInRange angle start end' = angleInRange_repeated angle start end'"
    by (simp add: angleInRange_def angleInRange_repeated_def addTwoPiWhileNegative_one_round)
next
  show "angleInRange 0 (- (pi / 18)) (pi / 18)"
    by (simp add: angleInRange_def addTwoPiIfNegative_def Let_def)
  show "angleInRange (- (pi / 36)) (- (pi / 18)) (pi / 18)"
    by (simp add: angleInRange_def addTwoPiIfNegative_def Let_def)
  show "angleInRange (71 * pi / 36) (35 * pi / 18) (pi / 18)"
    by (simp add: angleInRange_def addTwoPiIfNegative_def Let_def)
  show "\<not> angleInRange pi (- (pi / 18)) (pi / 18)"
    by (simp add: angleInRange_def addTwoPiIfNegative_def Let_def)
qed

theorem angleInRange_single_addition_witness:
  "- (2 * pi) \<le> - (pi / 18) \<and> - (pi / 18) < 2 * pi
   \<and> 0 \<le> addTwoPiIfNegative (- (pi / 18)) \<and> addTwoPiIfNegative (- (pi / 18)) < 2 * pi
   \<and> angleInRange (- (pi / 36)) (- (pi / 18)) (pi / 18)
   \<and> angleInRange_repeated (- (pi / 36)) (- (pi / 18)) (pi / 18)"
proof -
  have lt: "- (pi / 18) < 2 * pi" using pi_gt_zero by linarith
  show ?thesis
    using lt angleInRange_single_addition [of "- (pi / 18)" "- (pi / 36)" "- (pi / 18)" "pi / 18"]
    by auto
qed

text \<open>
  Claim C4 as stated has the test normalise by repeated addition, into \<open>[0, 2\<pi>)\<close>.
  At a start of \<open>-3\<pi>\<close> the single step of the code leaves a negative value; and for
  the range from \<open>-7\<pi>/2\<close> to \<open>-3\<pi>\<close>, which repeated addition turns into
  \<open>[\<pi>/2, \<pi>]\<close>, the angle \<open>3\<pi>/4\<close> is inside for the specification's test and outside
  for the code's.
\<close>

theorem angleInRange_multi_wrap_counterexample:
  "\<not> (0 \<le> addTwoPiIfNegative (- (3 * pi)))
   \<and> angleInRange_repeated (3 * pi / 4) (- (7 * pi / 2)) (- (3 * pi))
   \<and> \<not> angleInRange (3 * pi / 4) (- (7 * pi / 2)) (- (3 * pi))"
proof -
  have a: "addTwoPiWhileNegative (- (7 * pi / 2)) = pi / 2"
    by (simp add: addTwoPiWhileNegative_neg)
  have b: "addTwoPiWhileNegative (- (3 * pi)) = pi"
    by (simp add: addTwoPiWhileNegative_neg)
  have c: "\<not> pi \<le> 0" using pi_gt_zero by linarith
  show ?thesis
    by (simp add: angleInRange_def angleInRange_repeated_def addTwoPiIfNegative_def a b c)
qed

section \<open>The collision invariant at committed mutations\<close>

lemma appWith_simps [simp]:
  "sectors (appWith ss) = ss"
  "viewState (appWith ss) = \<lparr>scale = 1, offsetX = 0, offsetY = 0, centerX = 0, centerY = 0\<rparr>"
  "adminShowGrid (appWith ss) = False"
  "adminDragHistory (appWith ss) = []"
  "adminHistoryIndex (appWith ss) = - 1"
  "adminDraggedSector (appWith ss) = None"
  "adminDragPreview (appWith ss) = None"
  "selectedSeats (appWith ss) = []"
  "cart (appWith ss) = []"
  by (simp_all add: appWith_def)



text \<open>The two outcomes of \<^verbatim>\<open>handleAdminDragEnd\<close>.\<close>

lemma handleAdminDragEnd_commit:
  assumes "adminDraggedSector st = Some d" and "d \<noteq> []"
    and "adminDragPreview st = Some (px, py)"
    and "find (\<lambda>s. sectorId s = d) (sectors st) = Some ds"
    and "\<not> checkAdminSectorCollision (sectors st) ds
            (snapToGrid st (atan2 (py - centerY (viewState st)) (px - centerX (viewState st))))"
  shows "handleAdminDragEnd st =
     endDragSession ((saveToAdminHistory st (sectors st))
       \<lparr>sectors := map (moveSpan d
           (snapToGrid st (atan2 (py - centerY (viewState st)) (px - centerX (viewState st)))
              - (endAngle ds - startAngle ds) / 2)
           (snapToGrid st (atan2 (py - centerY (viewState st)) (px - centerX (viewState st)))
              + (endAngle ds - startAngle ds) / 2)) (sectors st)\<rparr>)"
proof -
  have "(\<lambda>sector. if sectorId sector = d then sector\<lparr>startAngle := ns, endAngle := ne\<rparr> else sector)
        = moveSpan d ns ne" for ns ne
    by (auto simp: moveSpan_def fun_eq_iff)
  then show ?thesis
    using assms by (simp add: handleAdminDragEnd_def Let_def)
qed

lemma handleAdminDragEnd_discard:
  assumes "adminDragPreview st = None \<or>
     (\<exists>d px py ds. adminDraggedSector st = Some d \<and> adminDragPreview st = Some (px, py) \<and>
        find (\<lambda>s. sectorId s = d) (sectors st) = Some ds \<and>
        checkAdminSectorCollision (sectors st) ds
          (snapToGrid st (atan2 (py - centerY (viewState st)) (px - centerX (viewState st)))))"
  shows "handleAdminDragEnd st = endDragSession st"
  using assms
  by (auto simp: handleAdminDragEnd_def Let_def split: option.splits)

text \<open>\<^verbatim>\<open>Math.atan2\<close> gives back the angle of a point of the right half of the unit circle.\<close>

lemma atan2_polar:
  assumes "- (pi / 2) < a" and "a < pi / 2"
  shows "atan2 (sin a) (cos a) = a"
proof -
  have "0 < cos a" using assms by (rule cos_gt_zero_pi)
  moreover have "arctan (sin a / cos a) = a"
    using arctan_tan [OF assms] by (simp add: tan_def)
  ultimately show ?thesis by (simp add: atan2_def)
qed

text \<open>
  The value of the loop at \<open>-\<pi>/12\<close>, the start of a span of 30 degrees dropped at 0.
\<close>

lemma addTwoPiWhileNegative_minus_15_degrees:
  "addTwoPiWhileNegative (- (pi / 12)) = 23 * pi / 12"
proof -
  have "addTwoPiWhileNegative (- (pi / 12)) = addTwoPiWhileNegative (- (pi / 12) + 2 * pi)"
    by (rule addTwoPiWhileNegative_neg) simp
  also have "- (pi / 12) + 2 * pi = 23 * pi / 12" by simp
  finally show ?thesis by simp
qed






section \<open>The end of a drag\<close>

lemma handleMouseUp_discard:
  assumes "previewPosition (dragState es) = None \<or> \<not> isValidPosition (dragState es)"
  shows "handleMouseUp g es now = es\<lparr>dragState := idleDragState\<rparr>"
  using assms by (auto simp: handleMouseUp_def split: option.splits bool.splits)

lemma handleMouseMove_dragging:
  assumes "isDragging (dragState es)" and "draggedSector (dragState es) = Some dragged"
  shows "\<exists>p. previewPosition (dragState (handleMouseMove es w)) = Some p
           \<and> isValidPosition (dragState (handleMouseMove es w))
               = (\<not> checkCollision (sectors (parent es)) dragged (fst p) (snd p))
           \<and> parent (handleMouseMove es w) = parent es
           \<and> history (handleMouseMove es w) = history es
           \<and> historyIndex (handleMouseMove es w) = historyIndex es"
  using assms by (simp add: handleMouseMove_def Let_def)

text \<open>
  A drag that ends on a candidate that the collision check rejects, or with no preview,
  is discarded: \<^verbatim>\<open>handleAdminDragEnd\<close> leaves the sectors and the history of
  \<^verbatim>\<open>App\<close> as they were, and so does \<^verbatim>\<open>handleMouseUp\<close> of \<^verbatim>\<open>DragDropAdmin\<close>,
  whose validity flag is the collision check of the last move.
\<close>

lemma rejected_drag_discarded:
  "((adminDragPreview st = None \<or>
      (\<exists>d px py ds. adminDraggedSector st = Some d \<and> adminDragPreview st = Some (px, py) \<and>
         find (\<lambda>s. sectorId s = d) (sectors st) = Some ds \<and>
         checkAdminSectorCollision (sectors st) ds
           (snapToGrid st (atan2 (py - centerY (viewState st)) (px - centerX (viewState st))))))
     \<longrightarrow> sectors (handleAdminDragEnd st) = sectors st
         \<and> adminDragHistory (handleAdminDragEnd st) = adminDragHistory st
         \<and> adminHistoryIndex (handleAdminDragEnd st) = adminHistoryIndex st)
   \<and> ((previewPosition (dragState es) = None \<or> \<not> isValidPosition (dragState es))
     \<longrightarrow> parent (handleMouseUp g es now) = parent es
         \<and> history (handleMouseUp g es now) = history es
         \<and> historyIndex (handleMouseUp g es now) = historyIndex es)
   \<and> (isDragging (dragState es) \<and> draggedSector (dragState es) = Some dragged
        \<and> previewPosition (dragState (handleMouseMove es w)) = Some p
        \<and> checkCollision (sectors (parent es)) dragged (fst p) (snd p)
     \<longrightarrow> parent (handleMouseUp g (handleMouseMove es w) now) = parent es
         \<and> history (handleMouseUp g (handleMouseMove es w) now) = history es
         \<and> historyIndex (handleMouseUp g (handleMouseMove es w) now) = historyIndex es)"
proof (intro conjI impI)
  assume h: "adminDragPreview st = None \<or>
      (\<exists>d px py ds. adminDraggedSector st = Some d \<and> adminDragPreview st = Some (px, py) \<and>
         find (\<lambda>s. sectorId s = d) (sectors st) = Some ds \<and>
         checkAdminSectorCollision (sectors st) ds
           (snapToGrid st (atan2 (py - centerY (viewState st)) (px - centerX (viewState st)))))"
  show "sectors (handleAdminDragEnd st) = sectors st"
    "adminDragHistory (handleAdminDragEnd st) = adminDragHistory st"
    "adminHistoryIndex (handleAdminDragEnd st) = adminHistoryIndex st"
    unfolding handleAdminDragEnd_discard [OF h] by (simp_all add: endDragSession_def)
next
  assume h: "previewPosition (dragState es) = None \<or> \<not> isValidPosition (dragState es)"
  show "parent (handleMouseUp g es now) = parent es"
    "history (handleMouseUp g es now) = history es"
    "historyIndex (handleMouseUp g es now) = historyIndex es"
    unfolding handleMouseUp_discard [OF h] by simp_all
next
  assume h: "isDragging (dragState es) \<and> draggedSector (dragState es) = Some dragged
        \<and> previewPosition (dragState (handleMouseMove es w)) = Some p
        \<and> checkCollision (sectors (parent es)) dragged (fst p) (snd p)"
  from h handleMouseMove_dragging [of es dragged w]
  have inv: "\<not> isValidPosition (dragState (handleMouseMove es w))"
    and same: "parent (handleMouseMove es w) = parent es"
      "history (handleMouseMove es w) = history es"
      "historyIndex (handleMouseMove es w) = historyIndex es"
    by auto
  from inv have d: "handleMouseUp g (handleMouseMove es w) now
      = (handleMouseMove es w)\<lparr>dragState := idleDragState\<rparr>"
    by (intro handleMouseUp_discard) simp
  show "parent (handleMouseUp g (handleMouseMove es w) now) = parent es"
    "history (handleMouseUp g (handleMouseMove es w) now) = history es"
    "historyIndex (handleMouseUp g (handleMouseMove es w) now) = historyIndex es"
    unfolding d using same by simp_all
qed

lemma fifty_degrees: "- (pi / 2) < 5 * pi / 18" "5 * pi / 18 < pi / 2"
  using pi_gt_zero by linarith+

text \<open>
  The sector of span 30 degrees dragged to 50 degrees against a sector on
  \<open>[40, 60]\<close> degrees of the same radial band: the candidate \<open>[35, 65]\<close> is rejected
  and the collection stays as it was.
\<close>

lemma drag_to_fifty_degrees_discarded:
  "checkAdminSectorCollision
      [wedge ''a'' 0 (pi / 6) 140 240, wedge ''b'' (2 * pi / 9) (pi / 3) 140 240]
      (wedge ''a'' 0 (pi / 6) 140 240) (5 * pi / 18)
   \<and> sectors (handleAdminDragEnd (draggingApp
        [wedge ''a'' 0 (pi / 6) 140 240, wedge ''b'' (2 * pi / 9) (pi / 3) 140 240] ''a''
        (cos (5 * pi / 18), sin (5 * pi / 18))))
      = [wedge ''a'' 0 (pi / 6) 140 240, wedge ''b'' (2 * pi / 9) (pi / 3) 140 240]
   \<and> sectors (parent (handleMouseUp (\<lambda>s. [])
        (handleMouseMove
           (editorWith [wedge ''a'' 0 (pi / 6) 140 240, wedge ''b'' (2 * pi / 9) (pi / 3) 140 240]
              (dragging (wedge ''a'' 0 (pi / 6) 140 240) (cos (5 * pi / 18), sin (5 * pi / 18)) None True))
           (cos (5 * pi / 18), sin (5 * pi / 18))) 0))
      = [wedge ''a'' 0 (pi / 6) 140 240, wedge ''b'' (2 * pi / 9) (pi / 3) 140 240]
   \<and> previewPosition (dragState
        (editorWith [wedge ''a'' 0 (pi / 6) 140 240, wedge ''b'' (2 * pi / 9) (pi / 3) 140 240]
           (dragging (wedge ''a'' 0 (pi / 6) 140 240) (cos (5 * pi / 18), sin (5 * pi / 18)) None True)))
      = None
   \<and> sectors (parent (handleMouseUp (\<lambda>s. [])
        (editorWith [wedge ''a'' 0 (pi / 6) 140 240, wedge ''b'' (2 * pi / 9) (pi / 3) 140 240]
           (dragging (wedge ''a'' 0 (pi / 6) 140 240) (cos (5 * pi / 18), sin (5 * pi / 18)) None True)) 0))
      = [wedge ''a'' 0 (pi / 6) 140 240, wedge ''b'' (2 * pi / 9) (pi / 3) 140 240]"
proof -
  let ?A = "wedge ''a'' 0 (pi / 6) 140 240"
  let ?B = "wedge ''b'' (2 * pi / 9) (pi / 3) 140 240"
  let ?w = "(cos (5 * pi / 18), sin (5 * pi / 18))"
  let ?st = "draggingApp [?A, ?B] ''a'' ?w"
  let ?es = "editorWith [?A, ?B] (dragging ?A ?w None True)"
  have at: "atan2 (sin (5 * pi / 18)) (cos (5 * pi / 18)) = 5 * pi / 18"
    by (rule atan2_polar [OF fifty_degrees])
  have span: "checkCollision [?A, ?B] ?A (7 * pi / 36) (13 * pi / 36)"
    by (simp add: radiusOverlap_def angleOverlap_def Let_def)
  have c: "checkAdminSectorCollision [?A, ?B] ?A (5 * pi / 18)"
    by (simp add: checkAdminSectorCollision_def radiusOverlap_def angleOverlap_def Let_def)
  have h1: "adminDragPreview ?st = None \<or>
      (\<exists>d px py ds. adminDraggedSector ?st = Some d \<and> adminDragPreview ?st = Some (px, py) \<and>
         find (\<lambda>s. sectorId s = d) (sectors ?st) = Some ds \<and>
         checkAdminSectorCollision (sectors ?st) ds
           (snapToGrid ?st (atan2 (py - centerY (viewState ?st)) (px - centerX (viewState ?st)))))"
    using c by (simp add: draggingApp_def snapToGrid_def at)
  have p: "previewPosition (dragState (handleMouseMove ?es ?w)) = Some (7 * pi / 36, 13 * pi / 36)"
    by (simp add: editorWith_def dragging_def handleMouseMove_def determineDragMode_def
        calculateNewPosition_def worldToAngle_def Let_def at)
  have q: "checkCollision (sectors (parent ?es)) ?A
      (fst (7 * pi / 36, 13 * pi / 36)) (snd (7 * pi / 36, 13 * pi / 36))"
    unfolding fst_conv snd_conv using span by (simp only: editorWith_def appWith_simps EditorState.simps)
  have h2: "isDragging (dragState ?es) \<and> draggedSector (dragState ?es) = Some ?A
        \<and> previewPosition (dragState (handleMouseMove ?es ?w)) = Some (7 * pi / 36, 13 * pi / 36)
        \<and> checkCollision (sectors (parent ?es)) ?A (fst (7 * pi / 36, 13 * pi / 36)) (snd (7 * pi / 36, 13 * pi / 36))"
    using p q by (simp add: editorWith_def dragging_def)
  have h3: "previewPosition (dragState ?es) = None"
    by (simp add: editorWith_def dragging_def)
  from rejected_drag_discarded [of ?st ?es "\<lambda>s. []" 0 ?A ?w "(7 * pi / 36, 13 * pi / 36)"] h1 h2 h3
  have "sectors (handleAdminDragEnd ?st) = sectors ?st"
    "parent (handleMouseUp (\<lambda>s. []) (handleMouseMove ?es ?w) 0) = parent ?es"
    "parent (handleMouseUp (\<lambda>s. []) ?es 0) = parent ?es"
    by blast+
  then show ?thesis using c h3 by (simp add: draggingApp_def editorWith_def)
qed

text \<open>\<^verbatim>\<open>saveToHistory\<close> leaves the new snapshot as the last entry, also when it evicts.\<close>

lemma saveToHistory_last:
  "history (saveToHistory es xs now) \<noteq> [] \<and>
   last (history (saveToHistory es xs now)) = \<lparr>historySectors = xs, timestamp = now\<rparr> \<and>
   parent (saveToHistory es xs now) = parent es"
proof -
  have "last (tl (ys @ [z])) = z" if "50 < length (ys @ [z])" for ys :: "HistoryState list" and z
    using that by (cases ys) auto
  moreover have "tl (ys @ [z]) \<noteq> []" if "50 < length (ys @ [z])" for ys :: "HistoryState list" and z
    using that by (cases ys) auto
  ultimately show ?thesis
    by (auto simp: saveToHistory_def Let_def simp del: length_append)
qed

lemma handleMouseUp_commit:
  assumes "isDragging (dragState es)" and "draggedSector (dragState es) = Some dragged"
    and "previewPosition (dragState es) = Some p" and "isValidPosition (dragState es)"
  shows "handleMouseUp g es now =
     (saveToHistory
        (es\<lparr>parent := handleSectorsUpdate g (parent es)
                (map (moveSpan (sectorId dragged) (fst p) (snd p)) (sectors (parent es)))\<rparr>)
        (map (moveSpan (sectorId dragged) (fst p) (snd p)) (sectors (parent es))) now)
       \<lparr>dragState := idleDragState\<rparr>"
proof -
  have "(\<lambda>sector. if sectorId sector = d then sector\<lparr>startAngle := ns, endAngle := ne\<rparr> else sector)
        = moveSpan d ns ne" for d ns ne
    by (auto simp: moveSpan_def fun_eq_iff)
  then show ?thesis
    using assms by (simp add: handleMouseUp_def Let_def)
qed

lemma handleMouseMove_result:
  assumes "isDragging (dragState es)" and "draggedSector (dragState es) = Some dragged"
  shows "dragState (handleMouseMove es w) =
     (dragState es)
       \<lparr>dragMode := determineDragMode es (dragStartPosition (dragState es)) w,
        currentPosition := w,
        previewPosition :=
          Some (calculateNewPosition es dragged
                  (fst w - fst (dragOffset (dragState es)), snd w - snd (dragOffset (dragState es)))
                  (determineDragMode es (dragStartPosition (dragState es)) w)),
        isValidPosition :=
          \<not> checkCollision (sectors (parent es)) dragged
              (fst (calculateNewPosition es dragged
                      (fst w - fst (dragOffset (dragState es)), snd w - snd (dragOffset (dragState es)))
                      (determineDragMode es (dragStartPosition (dragState es)) w)))
              (snd (calculateNewPosition es dragged
                      (fst w - fst (dragOffset (dragState es)), snd w - snd (dragOffset (dragState es)))
                      (determineDragMode es (dragStartPosition (dragState es)) w)))\<rparr>"
  using assms by (simp add: handleMouseMove_def Let_def)

lemma handleMouseUp_commit_sectors:
  assumes "isDragging (dragState es)" and "draggedSector (dragState es) = Some dragged"
    and "previewPosition (dragState es) = Some p" and "isValidPosition (dragState es)"
  shows "sectors (parent (handleMouseUp g es now))
           = map (\<lambda>sector. sector\<lparr>seats := g sector\<rparr>)
               (map (moveSpan (sectorId dragged) (fst p) (snd p)) (sectors (parent es)))"
  unfolding handleMouseUp_commit [OF assms]
  by (simp add: saveToHistory_last handleSectorsUpdate_def)

text \<open>
  Claim C2, on a candidate that wraps past 0. The sector of span 30 degrees around
  \<open>\<pi>/2\<close> is dragged along its circle to the angle 0, against a sector on
  \<open>[0, \<pi>/6]\<close> of the same radial band. The candidate \<open>[-\<pi>/12, \<pi>/12]\<close> collides with
  that sector in the sense of the specification, and the angle \<open>\<pi>/24\<close> is inside both
  ranges for the hit test of the code. The collision check finds no collision, and both
  drag paths commit: \<^verbatim>\<open>handleAdminDragEnd\<close> with the grid on, and \<^verbatim>\<open>handleMouseUp\<close>
  after the move, classified as radial, that set the flag.
\<close>

theorem wrapping_candidate_committed:
  "sectorsCollide_spec (wedge ''a'' (- (pi / 12)) (pi / 12) 140 240) (wedge ''b'' 0 (pi / 6) 140 240)
   \<and> angleInRange (pi / 24) (- (pi / 12)) (pi / 12)
   \<and> angleInRange (pi / 24) 0 (pi / 6)
   \<and> \<not> checkAdminSectorCollision
         [wedge ''a'' (5 * pi / 12) (7 * pi / 12) 140 240, wedge ''b'' 0 (pi / 6) 140 240]
         (wedge ''a'' (5 * pi / 12) (7 * pi / 12) 140 240) 0
   \<and> sectors (handleAdminDragEnd ((draggingApp
        [wedge ''a'' (5 * pi / 12) (7 * pi / 12) 140 240, wedge ''b'' 0 (pi / 6) 140 240] ''a''
        (190, 0))\<lparr>adminShowGrid := True\<rparr>))
      = [wedge ''a'' (- (pi / 12)) (pi / 12) 140 240, wedge ''b'' 0 (pi / 6) 140 240]
   \<and> dragMode (dragState (handleMouseMove
        (editorWith [wedge ''a'' (5 * pi / 12) (7 * pi / 12) 140 240, wedge ''b'' 0 (pi / 6) 140 240]
           (dragging (wedge ''a'' (5 * pi / 12) (7 * pi / 12) 140 240) (0, 190) None True))
        (190, 0))) = Radial
   \<and> isValidPosition (dragState (handleMouseMove
        (editorWith [wedge ''a'' (5 * pi / 12) (7 * pi / 12) 140 240, wedge ''b'' 0 (pi / 6) 140 240]
           (dragging (wedge ''a'' (5 * pi / 12) (7 * pi / 12) 140 240) (0, 190) None True))
        (190, 0)))
   \<and> sectors (parent (handleMouseUp (\<lambda>s. [])
        (handleMouseMove
           (editorWith [wedge ''a'' (5 * pi / 12) (7 * pi / 12) 140 240, wedge ''b'' 0 (pi / 6) 140 240]
              (dragging (wedge ''a'' (5 * pi / 12) (7 * pi / 12) 140 240) (0, 190) None True))
           (190, 0)) 0))
      = [wedge ''a'' (- (pi / 12)) (pi / 12) 140 240, wedge ''b'' 0 (pi / 6) 140 240]"
proof -
  let ?A = "wedge ''a'' (5 * pi / 12) (7 * pi / 12) 140 240"
  let ?A' = "wedge ''a'' (- (pi / 12)) (pi / 12) 140 240"
  let ?B = "wedge ''b'' 0 (pi / 6) 140 240"
  let ?st = "(draggingApp [?A, ?B] ''a'' (190, 0))\<lparr>adminShowGrid := True\<rparr>"
  let ?es = "editorWith [?A, ?B] (dragging ?A (0, 190) None True)"
  note n = addTwoPiWhileNegative_minus_15_degrees
  have spec: "sectorsCollide_spec ?A' ?B"
    by (simp add: sectorsCollide_spec_def angularOverlap_spec_def angleInRange_repeated_def
        Let_def n)
  have hit: "angleInRange (pi / 24) (- (pi / 12)) (pi / 12)" "angleInRange (pi / 24) 0 (pi / 6)"
    by (simp_all add: angleInRange_def addTwoPiIfNegative_def Let_def)
  have free: "\<not> checkCollision [?A, ?B] ?A (- (pi / 12)) (pi / 12)"
    by (simp add: radiusOverlap_def angleOverlap_def Let_def n)
  have code: "\<not> checkAdminSectorCollision [?A, ?B] ?A 0"
    by (simp add: checkAdminSectorCollision_def radiusOverlap_def angleOverlap_def Let_def n)
  have h2: "adminDraggedSector ?st = Some ''a''" by (simp add: draggingApp_def)
  have h3: "''a'' \<noteq> []" by simp
  have h4: "adminDragPreview ?st = Some (190, 0)" by (simp add: draggingApp_def)
  have h5: "find (\<lambda>s. sectorId s = ''a'') (sectors ?st) = Some ?A" by (simp add: draggingApp_def)
  have snap: "snapToGrid ?st (atan2 (0 - centerY (viewState ?st)) (190 - centerX (viewState ?st))) = 0"
    by (simp add: draggingApp_def snapToGrid_def atan2_def js_round_def)
  have h6: "\<not> checkAdminSectorCollision (sectors ?st) ?A
     (snapToGrid ?st (atan2 (0 - centerY (viewState ?st)) (190 - centerX (viewState ?st))))"
    unfolding snap using code by (simp add: draggingApp_def)
  have app: "sectors (handleAdminDragEnd ?st) = [?A', ?B]"
    unfolding handleAdminDragEnd_commit [OF h2 h3 h4 h5 h6] snap
    by (simp add: endDragSession_def draggingApp_def moveSpan_def wedge_def)
  have far: "\<not> sqrt 72200 < 10"
  proof -
    have "10 \<le> sqrt 72200" by (rule real_le_rsqrt) simp
    then show ?thesis by simp
  qed
  have radius: "sqrt 36100 = 190" by (rule real_sqrt_unique) simp_all
  have diagonal: "arctan (- 1) = - (pi / 4)" by (simp add: arctan_minus arctan_one)
  have mode: "determineDragMode ?es (0, 190) (190, 0) = Radial"
    by (simp add: determineDragMode_def editorWith_def atan2_def Let_def far radius diagonal)
  have position: "calculateNewPosition ?es ?A (190, 0) Radial = (- (pi / 12), pi / 12)"
    by (simp add: calculateNewPosition_def worldToAngle_def snapToRadialGrid_def js_round_def
        editorWith_def atan2_def Let_def)
  have d: "isDragging (dragState ?es)" "draggedSector (dragState ?es) = Some ?A"
    by (simp_all add: editorWith_def dragging_def)
  have start: "dragStartPosition (dragState ?es) = (0, 190)"
    by (simp add: editorWith_def dragging_def)
  have offset: "dragOffset (dragState ?es) = (0, 0)"
    by (simp add: editorWith_def dragging_def)
  have v: "(\<not> checkCollision (sectors (parent ?es)) ?A (- (pi / 12)) (pi / 12)) = True"
  proof -
    have "sectors (parent ?es) = [?A, ?B]" by (simp add: editorWith_def)
    with free show ?thesis by (simp only: simp_thms)
  qed
  have move: "dragState (handleMouseMove ?es (190, 0))
      = (dragState ?es)\<lparr>dragMode := Radial, currentPosition := (190, 0),
                          previewPosition := Some (- (pi / 12), pi / 12),
                          isValidPosition := True\<rparr>"
    unfolding handleMouseMove_result [OF d] start offset
    by (simp add: mode position v)
  have same: "parent (handleMouseMove ?es (190, 0)) = appWith [?A, ?B]"
    by (simp add: editorWith_def dragging_def handleMouseMove_def Let_def)
  have radial: "dragMode (dragState (handleMouseMove ?es (190, 0))) = Radial"
    unfolding move by simp
  have valid: "isValidPosition (dragState (handleMouseMove ?es (190, 0)))"
    unfolding move by simp
  have c: "isDragging (dragState (handleMouseMove ?es (190, 0)))"
    "draggedSector (dragState (handleMouseMove ?es (190, 0))) = Some ?A"
    "previewPosition (dragState (handleMouseMove ?es (190, 0))) = Some (- (pi / 12), pi / 12)"
    unfolding move by (simp_all add: d)
  have "sectors (parent (handleMouseUp (\<lambda>s. []) (handleMouseMove ?es (190, 0)) 0))
      = map (\<lambda>sector. sector\<lparr>seats := []\<rparr>)
          (map (moveSpan (sectorId ?A) (fst (- (pi / 12), pi / 12)) (snd (- (pi / 12), pi / 12)))
             (sectors (parent (handleMouseMove ?es (190, 0)))))"
    by (rule handleMouseUp_commit_sectors [OF c valid])
  also have "\<dots> = [?A', ?B]"
    unfolding same by (simp add: moveSpan_def wedge_def)
  finally have editor:
    "sectors (parent (handleMouseUp (\<lambda>s. []) (handleMouseMove ?es (190, 0)) 0)) = [?A', ?B]" .
  from spec hit code app radial valid editor show ?thesis by blast
qed

section \<open>The snapshot pushed by a committed drag\<close>

text \<open>
  Claim C5, as the code has it. The two drag commits push different snapshots. On the
  main canvas, \<^verbatim>\<open>handleAdminDragEnd\<close> pushes the collection as it was before the
  commit, after the entries up to the cursor, and then applies the new collection. In
  the editor, \<^verbatim>\<open>handleMouseUp\<close> applies the new collection first and pushes that new
  collection: the last entry of its history holds the dragged sector at its new span.
\<close>

theorem commit_history_snapshot:
  "(adminDraggedSector st = Some d \<and> d \<noteq> [] \<and> adminDragPreview st = Some (px, py)
      \<and> find (\<lambda>s. sectorId s = d) (sectors st) = Some ds
      \<and> snapped = snapToGrid st (atan2 (py - centerY (viewState st)) (px - centerX (viewState st)))
      \<and> \<not> checkAdminSectorCollision (sectors st) ds snapped
     \<longrightarrow> adminDragHistory (handleAdminDragEnd st)
            = js_slice0 (adminDragHistory st) (adminHistoryIndex st + 1) @ [sectors st]
         \<and> adminHistoryIndex (handleAdminDragEnd st)
            = int (length (adminDragHistory (handleAdminDragEnd st))) - 1
         \<and> sectors (handleAdminDragEnd st)
            = map (moveSpan d (snapped - (endAngle ds - startAngle ds) / 2)
                              (snapped + (endAngle ds - startAngle ds) / 2)) (sectors st))
   \<and> (isDragging (dragState es) \<and> draggedSector (dragState es) = Some dragged
      \<and> previewPosition (dragState es) = Some p \<and> isValidPosition (dragState es)
     \<longrightarrow> sectors (parent (handleMouseUp g es now))
            = map (\<lambda>sector. sector\<lparr>seats := g sector\<rparr>)
                (map (moveSpan (sectorId dragged) (fst p) (snd p)) (sectors (parent es)))
         \<and> history (handleMouseUp g es now) \<noteq> []
         \<and> last (history (handleMouseUp g es now))
            = \<lparr>historySectors = map (moveSpan (sectorId dragged) (fst p) (snd p)) (sectors (parent es)),
               timestamp = now\<rparr>)"
proof (intro conjI impI)
  assume h: "adminDraggedSector st = Some d \<and> d \<noteq> [] \<and> adminDragPreview st = Some (px, py)
      \<and> find (\<lambda>s. sectorId s = d) (sectors st) = Some ds
      \<and> snapped = snapToGrid st (atan2 (py - centerY (viewState st)) (px - centerX (viewState st)))
      \<and> \<not> checkAdminSectorCollision (sectors st) ds snapped"
  then have eq: "handleAdminDragEnd st =
     endDragSession ((saveToAdminHistory st (sectors st))
       \<lparr>sectors := map (moveSpan d (snapped - (endAngle ds - startAngle ds) / 2)
                                   (snapped + (endAngle ds - startAngle ds) / 2)) (sectors st)\<rparr>)"
  proof -
    from h have s: "snapped = snapToGrid st (atan2 (py - centerY (viewState st)) (px - centerX (viewState st)))"
      by blast
    from h have "\<not> checkAdminSectorCollision (sectors st) ds
        (snapToGrid st (atan2 (py - centerY (viewState st)) (px - centerX (viewState st))))"
      unfolding s by blast
    with h show ?thesis
      unfolding s by (intro handleAdminDragEnd_commit) blast+
  qed
  show "adminDragHistory (handleAdminDragEnd st)
            = js_slice0 (adminDragHistory st) (adminHistoryIndex st + 1) @ [sectors st]"
    unfolding eq by (simp add: endDragSession_def saveToAdminHistory_def Let_def)
  show "adminHistoryIndex (handleAdminDragEnd st)
            = int (length (adminDragHistory (handleAdminDragEnd st))) - 1"
    unfolding eq by (simp add: endDragSession_def saveToAdminHistory_def Let_def)
  show "sectors (handleAdminDragEnd st)
            = map (moveSpan d (snapped - (endAngle ds - startAngle ds) / 2)
                              (snapped + (endAngle ds - startAngle ds) / 2)) (sectors st)"
    unfolding eq by (simp add: endDragSession_def)
next
  assume h: "isDragging (dragState es) \<and> draggedSector (dragState es) = Some dragged
      \<and> previewPosition (dragState es) = Some p \<and> isValidPosition (dragState es)"
  then have eq: "handleMouseUp g es now =
     (saveToHistory
        (es\<lparr>parent := handleSectorsUpdate g (parent es)
                (map (moveSpan (sectorId dragged) (fst p) (snd p)) (sectors (parent es)))\<rparr>)
        (map (moveSpan (sectorId dragged) (fst p) (snd p)) (sectors (parent es))) now)
       \<lparr>dragState := idleDragState\<rparr>"
    by (intro handleMouseUp_commit) simp_all
  show "sectors (parent (handleMouseUp g es now))
            = map (\<lambda>sector. sector\<lparr>seats := g sector\<rparr>)
                (map (moveSpan (sectorId dragged) (fst p) (snd p)) (sectors (parent es)))"
    unfolding eq by (simp add: saveToHistory_last handleSectorsUpdate_def)
  show "history (handleMouseUp g es now) \<noteq> []"
    unfolding eq by (simp add: saveToHistory_last)
  show "last (history (handleMouseUp g es now))
            = \<lparr>historySectors = map (moveSpan (sectorId dragged) (fst p) (snd p)) (sectors (parent es)),
               timestamp = now\<rparr>"
    unfolding eq by (simp add: saveToHistory_last)
qed

theorem commit_history_snapshot_witness:
  "last (adminDragHistory (handleAdminDragEnd (draggingApp
       [wedge ''a'' 0 (pi / 6) 140 240, wedge ''b'' (pi / 2) (2 * pi / 3) 140 240] ''a'' (1, 0))))
     = [wedge ''a'' 0 (pi / 6) 140 240, wedge ''b'' (pi / 2) (2 * pi / 3) 140 240]
   \<and> sectors (handleAdminDragEnd (draggingApp
       [wedge ''a'' 0 (pi / 6) 140 240, wedge ''b'' (pi / 2) (2 * pi / 3) 140 240] ''a'' (1, 0)))
     = [wedge ''a'' (- (pi / 12)) (pi / 12) 140 240, wedge ''b'' (pi / 2) (2 * pi / 3) 140 240]
   \<and> historySectors (last (history (handleMouseUp (\<lambda>s. [])
        (editorWith [wedge ''a'' 0 (pi / 6) 140 240, wedge ''b'' (pi / 2) (2 * pi / 3) 140 240]
           (dragging (wedge ''a'' 0 (pi / 6) 140 240) (1, 0) (Some (- (pi / 12), pi / 12)) True)) 0)))
     = [wedge ''a'' (- (pi / 12)) (pi / 12) 140 240, wedge ''b'' (pi / 2) (2 * pi / 3) 140 240]"
proof -
  let ?A = "wedge ''a'' 0 (pi / 6) 140 240"
  let ?B = "wedge ''b'' (pi / 2) (2 * pi / 3) 140 240"
  let ?st = "draggingApp [?A, ?B] ''a'' (1, 0)"
  let ?es = "editorWith [?A, ?B] (dragging ?A (1, 0) (Some (- (pi / 12), pi / 12)) True)"
  have n: "addTwoPiWhileNegative (- (pi / 12)) = 23 * pi / 12"
  proof -
    have "addTwoPiWhileNegative (- (pi / 12)) = addTwoPiWhileNegative (- (pi / 12) + 2 * pi)"
      by (rule addTwoPiWhileNegative_neg) simp
    also have "- (pi / 12) + 2 * pi = 23 * pi / 12" by simp
    finally show ?thesis by simp
  qed
  have h1: "adminDraggedSector ?st = Some ''a'' \<and> ''a'' \<noteq> [] \<and> adminDragPreview ?st = Some (1, 0)
      \<and> find (\<lambda>s. sectorId s = ''a'') (sectors ?st) = Some ?A
      \<and> 0 = snapToGrid ?st (atan2 (0 - centerY (viewState ?st)) (1 - centerX (viewState ?st)))
      \<and> \<not> checkAdminSectorCollision (sectors ?st) ?A 0"
    by (simp add: draggingApp_def checkAdminSectorCollision_def snapToGrid_def atan2_def
        radiusOverlap_def angleOverlap_def Let_def n)
  have h2: "isDragging (dragState ?es) \<and> draggedSector (dragState ?es) = Some ?A
      \<and> previewPosition (dragState ?es) = Some (- (pi / 12), pi / 12) \<and> isValidPosition (dragState ?es)"
    by (simp add: editorWith_def dragging_def)
  from commit_history_snapshot [of ?st "''a''" 1 0 ?A 0 ?es ?A "(- (pi / 12), pi / 12)" "\<lambda>s. []" 0] h1 h2
  have a: "adminDragHistory (handleAdminDragEnd ?st)
            = js_slice0 (adminDragHistory ?st) (adminHistoryIndex ?st + 1) @ [sectors ?st]"
    and b: "sectors (handleAdminDragEnd ?st)
            = map (moveSpan ''a'' (0 - (endAngle ?A - startAngle ?A) / 2)
                              (0 + (endAngle ?A - startAngle ?A) / 2)) (sectors ?st)"
    and c: "last (history (handleMouseUp (\<lambda>s. []) ?es 0))
            = \<lparr>historySectors = map (moveSpan (sectorId ?A) (fst (- (pi / 12), pi / 12)) (snd (- (pi / 12), pi / 12)))
                  (sectors (parent ?es)),
               timestamp = 0\<rparr>"
    by blast+
  show ?thesis
    unfolding a b c
    by (simp add: draggingApp_def editorWith_def moveSpan_def wedge_def)
qed

text \<open>
  Claim C5 as stated has every committed drag push the collection of before the commit.
  After a commit of \<^verbatim>\<open>handleMouseUp\<close> that moves a sector from \<open>[0, \<pi>/6]\<close> to
  \<open>[-\<pi>/12, \<pi>/12]\<close>, the snapshot pushed is not the collection of before the commit.
\<close>

theorem editor_pushes_result_counterexample:
  "historySectors (last (history (handleMouseUp (\<lambda>s. [])
        (editorWith [wedge ''a'' 0 (pi / 6) 140 240, wedge ''b'' (pi / 2) (2 * pi / 3) 140 240]
           (dragging (wedge ''a'' 0 (pi / 6) 140 240) (1, 0) (Some (- (pi / 12), pi / 12)) True)) 0)))
     \<noteq> [wedge ''a'' 0 (pi / 6) 140 240, wedge ''b'' (pi / 2) (2 * pi / 3) 140 240]"
  by (simp add: handleMouseUp_def editorWith_def dragging_def saveToHistory_def js_slice0_def
      handleSectorsUpdate_def Let_def wedge_def)

section \<open>The bound of the history\<close>

text \<open>
  The history of \<^verbatim>\<open>DragDropAdmin\<close> is bounded. One push, from any cursor inside a
  history of at most 50 entries, leaves at most 50 entries and the cursor on the last
  one; a run of pushes from a cursor on the last entry leaves the newest 50 of the old
  entries and the pushed ones, so the oldest are gone.
\<close>

lemma saveToHistory_bounded:
  assumes "length (history es) \<le> 50" and "- 1 \<le> historyIndex es"
    and "historyIndex es \<le> int (length (history es)) - 1"
  shows "length (history (saveToHistory es xs now)) \<le> 50
       \<and> historyIndex (saveToHistory es xs now) = int (length (history (saveToHistory es xs now))) - 1"
  using assms by (auto simp: saveToHistory_def js_slice0_def Let_def)

lemma saveToHistory_at_end:
  assumes "length (history es) \<le> 50" and "historyIndex es = int (length (history es)) - 1"
  shows "history (saveToHistory es xs now)
           = drop (length (history es) + 1 - 50) (history es @ [entryOf (xs, now)])"
proof (cases "length (history es) = 50")
  case True
  then have "history es \<noteq> []" by auto
  then have "tl (history es @ [entryOf (xs, now)]) = drop 1 (history es @ [entryOf (xs, now)])"
    by (cases "history es") simp_all
  with True assms show ?thesis
    by (simp add: saveToHistory_def js_slice0_def Let_def entryOf_def)
next
  case False
  with assms show ?thesis
    by (simp add: saveToHistory_def js_slice0_def Let_def entryOf_def)
qed

lemma pushAll_history:
  assumes "length (history es) \<le> 50" and "historyIndex es = int (length (history es)) - 1"
  shows "history (pushAll es ps)
           = drop (length (history es) + length ps - 50) (history es @ map entryOf ps)
       \<and> historyIndex (pushAll es ps) = int (length (history (pushAll es ps))) - 1"
  using assms
proof (induction ps arbitrary: es)
  case Nil
  then show ?case by (simp add: pushAll_def)
next
  case (Cons p ps)
  obtain xs now where p: "p = (xs, now)" by (cases p)
  let ?es = "saveToHistory es xs now"
  have b: "length (history ?es) \<le> 50" "historyIndex ?es = int (length (history ?es)) - 1"
    using saveToHistory_bounded [of es xs now] Cons.prems by simp_all
  have h: "history ?es = drop (length (history es) + 1 - 50) (history es @ [entryOf p])"
    using saveToHistory_at_end [OF Cons.prems] p by simp
  have step: "pushAll es (p # ps) = pushAll ?es ps" by (simp add: pushAll_def p)
  have len: "length (history ?es) = min 50 (length (history es) + 1)"
    using Cons.prems(1) by (simp add: h)
  have "history (pushAll ?es ps)
      = drop (length (history ?es) + length ps - 50) (history ?es @ map entryOf ps)"
    using Cons.IH [OF b] by simp
  also have "\<dots> = drop (length (history es) + length (p # ps) - 50)
                      (history es @ map entryOf (p # ps))"
  proof (cases "length (history es) = 50")
    case True
    then show ?thesis by (simp add: h len)
  next
    case False
    with Cons.prems(1) show ?thesis by (simp add: h len)
  qed
  finally show ?case using Cons.IH [OF b] by (simp add: step)
qed

text \<open>The history of \<^verbatim>\<open>App\<close> keeps every snapshot pushed.\<close>

lemma saveToAdminHistory_all:
  assumes "adminHistoryIndex st = int (length (adminDragHistory st)) - 1"
  shows "adminDragHistory (foldl saveToAdminHistory st xs) = adminDragHistory st @ xs
       \<and> adminHistoryIndex (foldl saveToAdminHistory st xs)
           = int (length (adminDragHistory st @ xs)) - 1"
  using assms
proof (induction xs arbitrary: st)
  case Nil
  then show ?case by simp
next
  case (Cons x xs)
  have "adminHistoryIndex (saveToAdminHistory st x)
      = int (length (adminDragHistory (saveToAdminHistory st x))) - 1"
    by (simp add: saveToAdminHistory_def Let_def)
  from Cons.IH [OF this] Cons.prems show ?case
    by (simp add: saveToAdminHistory_def js_slice0_def Let_def)
qed

text \<open>
  Claim C6 on \<^verbatim>\<open>saveToAdminHistory\<close>: the function has no cap. After 51 pushes on the
  empty history of \<^verbatim>\<open>App\<close> the history holds 51 entries and the cursor is at 50.
\<close>

theorem admin_history_unbounded:
  "length (adminDragHistory (foldl saveToAdminHistory (appWith []) (replicate 51 []))) = 51
   \<and> adminHistoryIndex (foldl saveToAdminHistory (appWith []) (replicate 51 [])) = 50"
  using saveToAdminHistory_all [of "appWith []" "replicate 51 []"] by simp

section \<open>The round trip of undo and redo\<close>

lemma undoThenRedo_result:
  assumes "0 < historyIndex es" and "historyIndex es < int (length (history es))"
  shows "undoThenRedo g1 g2 es =
           Inr (es\<lparr>parent := handleSectorsUpdate g2 (parent es)
                              (historySectors (history es ! nat (historyIndex es)))\<rparr>)"
proof -
  let ?i = "historyIndex es"
  let ?es' = "es\<lparr>parent := handleSectorsUpdate g1 (parent es)
                              (historySectors (history es ! nat (?i - 1))),
                 historyIndex := ?i - 1\<rparr>"
  have u: "handleUndo g1 es = Inr ?es'"
    using assms by (simp add: handleUndo_def Let_def)
  have r: "handleRedo g2 ?es' =
      Inr (es\<lparr>parent := handleSectorsUpdate g2 (parent es) (historySectors (history es ! nat ?i))\<rparr>)"
    using assms by (simp add: handleRedo_def Let_def handleSectorsUpdate_def)
  show ?thesis by (simp add: undoThenRedo_def u r)
qed

text \<open>
  Claim C7, as the code has it. With the cursor above the first entry and inside the
  history, undo followed by redo succeeds, leaves the history and the cursor as they
  were, and sets the sector collection to the snapshot at the cursor, with the seats
  that the redo generates. The state is the state of before the undo when the
  collection of before the undo was that snapshot with those seats.
\<close>

theorem undo_redo_round_trip:
  assumes "0 < historyIndex es" and "historyIndex es < int (length (history es))"
  shows "undoThenRedo g1 g2 es =
           Inr (es\<lparr>parent := handleSectorsUpdate g2 (parent es)
                              (historySectors (history es ! nat (historyIndex es)))\<rparr>)
       \<and> (sectors (parent es)
            = map (\<lambda>sector. sector\<lparr>seats := g2 sector\<rparr>)
                (historySectors (history es ! nat (historyIndex es)))
          \<longrightarrow> undoThenRedo g1 g2 es = Inr es)"
proof -
  let ?i = "historyIndex es"
  note first = undoThenRedo_result [OF assms, of g1 g2]
  moreover have "undoThenRedo g1 g2 es = Inr es"
    if "sectors (parent es)
          = map (\<lambda>sector. sector\<lparr>seats := g2 sector\<rparr>) (historySectors (history es ! nat ?i))"
  proof -
    have "handleSectorsUpdate g2 (parent es) (historySectors (history es ! nat ?i)) = parent es"
      using that by (simp add: handleSectorsUpdate_def)
    with first show ?thesis by simp
  qed
  ultimately show ?thesis by blast
qed

lemma afterOneDrag_eval:
  "parent afterOneDrag = appWith [sidedStand\<lparr>startAngle := pi / 2, endAngle := 2 * pi / 3\<rparr>]"
  "history afterOneDrag =
     [\<lparr>historySectors = [sidedStand], timestamp = 0\<rparr>,
      \<lparr>historySectors = [sidedStand\<lparr>startAngle := pi / 2, endAngle := 2 * pi / 3\<rparr>],
       timestamp = 1\<rparr>]"
  "historyIndex afterOneDrag = 1"
  by (simp_all add: afterOneDrag_def handleMouseUp_def initializeHistory_def editorWith_def
      dragging_def saveToHistory_def js_slice0_def handleSectorsUpdate_def Let_def wedge_def
      appWith_def sidedStand_def)

theorem undo_redo_round_trip_witness:
  "0 < historyIndex afterOneDrag \<and> historyIndex afterOneDrag < int (length (history afterOneDrag))
   \<and> undoThenRedo (\<lambda>s. []) (\<lambda>s. []) afterOneDrag = Inr afterOneDrag"
proof -
  have h1: "0 < historyIndex afterOneDrag"
    and h2: "historyIndex afterOneDrag < int (length (history afterOneDrag))"
    by (simp_all add: afterOneDrag_eval)
  have h3: "sectors (parent afterOneDrag)
      = map (\<lambda>sector. sector\<lparr>seats := []\<rparr>)
          (historySectors (history afterOneDrag ! nat (historyIndex afterOneDrag)))"
    by (simp add: afterOneDrag_eval wedge_def sidedStand_def)
  from undo_redo_round_trip [OF h1 h2, of "\<lambda>s. []" "\<lambda>s. []"] h3 h1 h2
  show ?thesis by blast
qed

text \<open>
  Claim C7 as stated asks only that undo and redo are not no-ops. First, the quick
  action changes the collection without a push: after a committed drag and a reset of
  the shapes, undo and redo are both possible, and they end on the snapshot of the
  drag, with the sided shape. Second, every update generates the seats anew: after the
  committed drag alone, a redo whose draws give a seat where the commit gave none ends
  on a collection with other seats.
\<close>

theorem undo_redo_after_edit_counterexample:
  "0 < historyIndex afterDragAndReset
   \<and> historyIndex afterDragAndReset - 1 < int (length (history afterDragAndReset)) - 1
   \<and> undoThenRedo (\<lambda>s. []) (\<lambda>s. []) afterDragAndReset \<noteq> Inr afterDragAndReset
   \<and> 0 < historyIndex afterOneDrag
   \<and> historyIndex afterOneDrag - 1 < int (length (history afterOneDrag)) - 1
   \<and> undoThenRedo (\<lambda>s. []) (\<lambda>s. [seatAt ''a-0-0'' 146 0]) afterOneDrag \<noteq> Inr afterOneDrag"
proof -
  have e: "history afterDragAndReset = history afterOneDrag"
    "historyIndex afterDragAndReset = historyIndex afterOneDrag"
    "map shape (sectors (parent afterDragAndReset)) = [Rounded]"
    by (simp_all add: afterDragAndReset_def afterOneDrag_eval resetAllToRounded_def
        handleSectorsUpdate_def)
  have h1: "0 < historyIndex afterDragAndReset"
    and h2: "historyIndex afterDragAndReset < int (length (history afterDragAndReset))"
    by (simp_all add: e afterOneDrag_eval)
  have k1: "0 < historyIndex afterOneDrag"
    and k2: "historyIndex afterOneDrag < int (length (history afterOneDrag))"
    by (simp_all add: afterOneDrag_eval)
  let ?after = "afterDragAndReset\<lparr>parent := handleSectorsUpdate (\<lambda>s. []) (parent afterDragAndReset)
           (historySectors (history afterDragAndReset ! nat (historyIndex afterDragAndReset)))\<rparr>"
  have one: "map shape (sectors (parent ?after)) = [Sided]"
    by (simp add: e afterOneDrag_eval handleSectorsUpdate_def sidedStand_def)
  have a: "?after \<noteq> afterDragAndReset"
  proof
    assume "?after = afterDragAndReset"
    then have "map shape (sectors (parent ?after)) = map shape (sectors (parent afterDragAndReset))"
      by simp
    with one e(3) show False by simp
  qed
  let ?again = "afterOneDrag\<lparr>parent :=
           handleSectorsUpdate (\<lambda>s. [seatAt ''a-0-0'' 146 0]) (parent afterOneDrag)
             (historySectors (history afterOneDrag ! nat (historyIndex afterOneDrag)))\<rparr>"
  have two: "map seats (sectors (parent ?again)) = [[seatAt ''a-0-0'' 146 0]]"
    by (simp add: afterOneDrag_eval handleSectorsUpdate_def)
  have three: "map seats (sectors (parent afterOneDrag)) = [[]]"
    by (simp add: afterOneDrag_eval sidedStand_def wedge_def)
  have b: "?again \<noteq> afterOneDrag"
  proof
    assume "?again = afterOneDrag"
    then have "map seats (sectors (parent ?again)) = map seats (sectors (parent afterOneDrag))"
      by simp
    with two three show False by simp
  qed
  from a undoThenRedo_result [OF h1 h2, of "\<lambda>s. []" "\<lambda>s. []"]
  have c1: "undoThenRedo (\<lambda>s. []) (\<lambda>s. []) afterDragAndReset \<noteq> Inr afterDragAndReset" by simp
  from b undoThenRedo_result [OF k1 k2, of "\<lambda>s. []" "\<lambda>s. [seatAt ''a-0-0'' 146 0]"]
  have c2: "undoThenRedo (\<lambda>s. []) (\<lambda>s. [seatAt ''a-0-0'' 146 0]) afterOneDrag \<noteq> Inr afterOneDrag"
    by simp
  from h1 h2 k1 k2 c1 c2 show ?thesis by simp
qed

section \<open>Zoom anchored at the pointer\<close>

text \<open>
  The new scale of \<^verbatim>\<open>handleWheel\<close> is the clamped product, and while the product
  stays inside the clamp the world point under the pointer does not move.
\<close>

lemma handleWheel_scale:
  "scale (viewState (handleWheel st mouseX mouseY deltaY))
     = max (1 / 2) (min 20 (scale (viewState st) * (if deltaY > 0 then 95 / 100 else 105 / 100)))"
  by (simp add: handleWheel_def Let_def)

lemma handleWheel_anchored:
  assumes "0 < scale (viewState st)"
    and "1 / 2 \<le> scale (viewState st) * (if deltaY > 0 then 95 / 100 else 105 / 100)"
    and "scale (viewState st) * (if deltaY > 0 then 95 / 100 else 105 / 100) \<le> 20"
  shows "screenToWorld (viewState (handleWheel st mouseX mouseY deltaY)) mouseX mouseY
           = screenToWorld (viewState st) mouseX mouseY"
  using assms
  by (auto simp: handleWheel_def screenToWorld_def Let_def field_simps split: if_splits)

text \<open>
  Claim C8 at the clamp. At scale 20 a wheel step inwards leaves the scale at 20, and
  the offset is still scaled by 1.05: with the pointer at \<open>(100, 100)\<close> and the offset
  at the origin, the world point under the pointer was \<open>(5, 5)\<close> and is
  \<open>(5.25, 5.25)\<close> after the step.
\<close>

theorem zoom_at_clamp_drifts:
  "scale (viewState (handleWheel (zoomedTo 20) 100 100 (- 1))) = 20
   \<and> offsetX (viewState (handleWheel (zoomedTo 20) 100 100 (- 1))) = - 5
   \<and> screenToWorld (viewState (zoomedTo 20)) 100 100 = (5, 5)
   \<and> screenToWorld (viewState (handleWheel (zoomedTo 20) 100 100 (- 1))) 100 100 = (21 / 4, 21 / 4)"
  by (simp add: handleWheel_def screenToWorld_def zoomedTo_def Let_def)


section \<open>The gates of the hit tests\<close>

text \<open>
  Claim C9, as the code has it. \<^verbatim>\<open>getSectorAtPosition\<close> of \<^verbatim>\<open>App\<close> returns a
  sector only at a scale of at most 3.
\<close>

theorem sector_hit_only_in_overview:
  assumes "getSectorAtPosition st x y = Some sector"
  shows "scale (viewState st) \<le> 3"
  using assms by (simp add: getSectorAtPosition_def split: if_splits)

lemma sqrt_40000: "sqrt 40000 = 200"
  by (rule real_sqrt_unique) simp_all

theorem sector_hit_only_in_overview_witness:
  "getSectorAtPosition (appWith [wedge ''a'' (- (pi / 6)) (pi / 6) 180 280]) 200 0
     = Some (wedge ''a'' (- (pi / 6)) (pi / 6) 180 280)
   \<and> scale (viewState (appWith [wedge ''a'' (- (pi / 6)) (pi / 6) 180 280])) \<le> 3"
proof -
  have h: "getSectorAtPosition (appWith [wedge ''a'' (- (pi / 6)) (pi / 6) 180 280]) 200 0
     = Some (wedge ''a'' (- (pi / 6)) (pi / 6) 180 280)"
    by (simp add: getSectorAtPosition_def Let_def atan2_def angleInRange_def
        addTwoPiIfNegative_def sqrt_40000)
  from sector_hit_only_in_overview [OF h] h show ?thesis by simp
qed

text \<open>
  Claim C9 as stated has no zoom level at which both hit tests are active.
  \<^verbatim>\<open>getSeatAtPosition\<close> does not look at the scale: at scale 1, on a seat of a
  sector, the seat hit test returns the seat and the sector hit test returns the sector.
\<close>

theorem both_hit_tests_active_counterexample:
  "scale (viewState (appWith [(wedge ''a'' (- (pi / 6)) (pi / 6) 180 280)\<lparr>seats := [seatAt ''a-0-0'' 200 0]\<rparr>])) = 1
   \<and> getSeatAtPosition
        (appWith [(wedge ''a'' (- (pi / 6)) (pi / 6) 180 280)\<lparr>seats := [seatAt ''a-0-0'' 200 0]\<rparr>]) 200 0
      = Some (seatAt ''a-0-0'' 200 0)
   \<and> getSectorAtPosition
        (appWith [(wedge ''a'' (- (pi / 6)) (pi / 6) 180 280)\<lparr>seats := [seatAt ''a-0-0'' 200 0]\<rparr>]) 200 0
      = Some ((wedge ''a'' (- (pi / 6)) (pi / 6) 180 280)\<lparr>seats := [seatAt ''a-0-0'' 200 0]\<rparr>)"
  by (simp add: getSeatAtPosition_def getSectorAtPosition_def Let_def atan2_def angleInRange_def
      addTwoPiIfNegative_def sqrt_40000 seatAt_def wedge_def)


section \<open>The selection and the cart\<close>

lemma filter_cart_of_selection:
  "filter (\<lambda>item. seatId (seat item) \<noteq> k) (map (\<lambda>s. \<lparr>seat = s, quantity = 1\<rparr>) xs)
     = map (\<lambda>s. \<lparr>seat = s, quantity = 1\<rparr>) (filter (\<lambda>s. seatId s \<noteq> k) xs)"
  "filter (\<lambda>item. seatId (seat item) = k) (map (\<lambda>s. \<lparr>seat = s, quantity = 1\<rparr>) xs)
     = map (\<lambda>s. \<lparr>seat = s, quantity = 1\<rparr>) (filter (\<lambda>s. seatId s = k) xs)"
  by (induction xs) auto

lemma applyCartEvent_mirrors:
  assumes "cartMirrorsSelection st"
  shows "cartMirrorsSelection (applyCartEvent st ev)"
proof (cases ev)
  case (SeatClick seat')
  show ?thesis
  proof (cases "list_ex (\<lambda>s. seatId s = seatId seat') (selectedSeats st)")
    case True
    with assms SeatClick show ?thesis
      by (simp add: cartMirrorsSelection_def handleSeatClick_def filter_cart_of_selection
          distinct_map_filter)
  next
    case False
    then have "seatId seat' \<notin> seatId ` set (selectedSeats st)"
      by (auto simp: list_ex_iff)
    with False assms SeatClick show ?thesis
      by (simp add: cartMirrorsSelection_def handleSeatClick_def)
  qed
next
  case (RemoveFromCart seatId')
  with assms show ?thesis
    by (simp add: cartMirrorsSelection_def removeFromCart_def filter_cart_of_selection
        distinct_map_filter)
next
  case ClearCart
  then show ?thesis by (simp add: cartMirrorsSelection_def clearCart_def)
qed

lemma foldl_mirrors:
  "cartMirrorsSelection st \<Longrightarrow> cartMirrorsSelection (foldl applyCartEvent st evs)"
  by (induction evs arbitrary: st) (simp_all add: applyCartEvent_mirrors)

lemma count_of_distinct_id:
  "distinct (map seatId xs) \<Longrightarrow>
     length (filter (\<lambda>s. seatId s = k) xs) = (if k \<in> seatId ` set xs then 1 else 0)"
  by (induction xs) auto

text \<open>
  With the handler of the current render for every seat click: from an empty selection
  and an empty cart, after any sequence of seat clicks, removals from the cart and cart
  clears, a seat id is among the selected seats exactly when the cart holds exactly one
  item of that id, and every cart item has quantity 1.
\<close>

lemma current_render_clicks_consistent:
  assumes "selectedSeats st = []" and "cart st = []"
  shows "(\<forall>seatId'. (seatId' \<in> seatId ` set (selectedSeats (foldl applyCartEvent st evs)))
              = (length (cartItemsOf (foldl applyCartEvent st evs) seatId') = 1))
       \<and> (\<forall>item \<in> set (cart (foldl applyCartEvent st evs)). quantity item = 1)"
proof -
  let ?st = "foldl applyCartEvent st evs"
  have "cartMirrorsSelection st" using assms by (simp add: cartMirrorsSelection_def)
  then have m: "cartMirrorsSelection ?st" by (rule foldl_mirrors)
  then have c: "cart ?st = map (\<lambda>s. \<lparr>seat = s, quantity = 1\<rparr>) (selectedSeats ?st)"
    and d: "distinct (map seatId (selectedSeats ?st))"
    by (simp_all add: cartMirrorsSelection_def)
  have "length (cartItemsOf ?st k) = (if k \<in> seatId ` set (selectedSeats ?st) then 1 else 0)" for k
    unfolding cartItemsOf_def c
    using count_of_distinct_id [OF d, of k]
    by (simp add: filter_cart_of_selection)
  moreover have "\<forall>item \<in> set (cart ?st). quantity item = 1"
    unfolding c by auto
  ultimately show ?thesis by auto
qed

text \<open>
  Claim C10, on the listener of the canvas. Two mousedown events on the same available
  seat, with no change of a dependency of the effect in between: the second event still
  runs the handler of the render in which nothing was selected, so the seat is added
  again. The seat is twice among the selected seats and the cart holds two items of
  its id.
\<close>

theorem second_click_adds_seat_again:
  "getSeatAtPosition (app freshCanvas) 200 0 = Some (seatAt ''a-0-0'' 200 0)
   \<and> map seatId (selectedSeats (app (handleMouseDown freshCanvas 200 0))) = [''a-0-0'']
   \<and> listenerSelectedSeats (handleMouseDown freshCanvas 200 0) = []
   \<and> map seatId (selectedSeats (app (handleMouseDown (handleMouseDown freshCanvas 200 0) 200 0)))
      = [''a-0-0'', ''a-0-0'']
   \<and> length (cartItemsOf (app (handleMouseDown (handleMouseDown freshCanvas 200 0) 200 0)) ''a-0-0'')
      = 2"
  by (simp add: freshCanvas_def registerListeners_def handleMouseDown_def getSeatAtPosition_def
      handleSeatClick_def cartItemsOf_def standWithSeat_def seatAt_def appWith_def wedge_def Let_def)

text \<open>
  After a wheel event the effect has run again, and a click on the seat, which is still
  under the pointer, removes it from the selection and from the cart.
\<close>

lemma click_after_wheel_removes_seat:
  "selectedSeats (app (handleMouseDown (wheelOnCanvas (handleMouseDown freshCanvas 200 0) 200 0 1) 200 0))
     = []
   \<and> cart (app (handleMouseDown (wheelOnCanvas (handleMouseDown freshCanvas 200 0) 200 0 1) 200 0))
     = []"
  by (simp add: freshCanvas_def registerListeners_def handleMouseDown_def wheelOnCanvas_def
      handleWheel_def getSeatAtPosition_def handleSeatClick_def standWithSeat_def seatAt_def
      appWith_def wedge_def Let_def)

end
